theory Spec2Isabelle
  imports Main
begin

section \<open>Values\<close>

text \<open>
  The handlers read properties of \<open>req.body\<close> and of Mongoose documents. A property is
  either undefined (absent) or holds a value of the type the schema gives it: a string
  for the text fields, an array of object ids for the reference lists. \<open>None\<close> stands
  for \<open>undefined\<close>. Object ids are well-formed ids, numbered; an id string that the
  driver cannot cast to an ObjectId is outside the model.
\<close>

type_synonym oid = nat

text \<open>JavaScript truthiness of a string-or-undefined: the empty string is falsy.\<close>

definition truthy :: "string option \<Rightarrow> bool" where
  "truthy v = (case v of None \<Rightarrow> False | Some s \<Rightarrow> s \<noteq> [])"

text \<open>\<open>a || b\<close> on strings, and on arrays (every array is truthy, the empty one too).\<close>

definition js_or :: "string option \<Rightarrow> string option \<Rightarrow> string option" where
  "js_or a b = (if truthy a then a else b)"

definition js_or_arr :: "'a list option \<Rightarrow> 'a list option \<Rightarrow> 'a list option" where
  "js_or_arr a b = (case a of None \<Rightarrow> b | Some xs \<Rightarrow> Some xs)"

text \<open>The JSON that \<open>res.json\<close> sends.\<close>

datatype json =
    JNull
  | JBool bool
  | JNum nat
  | JStr string
  | JArr "json list"
  | JObj "(string \<times> json) list"

text \<open>An object literal as serialised: a property whose value is undefined is left out.\<close>

definition obj :: "(string \<times> json option) list \<Rightarrow> json" where
  "obj kvs = JObj (List.map_filter (\<lambda>(k, v). map_option (\<lambda>j. (k, j)) v) kvs)"

definition str :: "string option \<Rightarrow> json option" where
  "str v = map_option JStr v"

definition ids :: "oid list option \<Rightarrow> json option" where
  "ids v = map_option (\<lambda>xs. JArr (map JNum xs)) v"

record response =
  code :: nat
  body :: json

text \<open>\<open>res.json(j)\<close> answers 200; \<open>res.status(c).json({success: false, error: msg})\<close>.\<close>

definition ok :: "json \<Rightarrow> response" where
  "ok j = \<lparr>code = 200, body = j\<rparr>"

definition fail :: "nat \<Rightarrow> string \<Rightarrow> response" where
  "fail c msg = \<lparr>code = c, body = JObj [(''success'', JBool False), (''error'', JStr msg)]\<rparr>"

section \<open>Documents and the entity store\<close>

text \<open>
  The six properties a member request body carries; a stored member document has them
  too, with its \<open>_id\<close> (\<open>mid\<close>), its password and its creation time.
\<close>

record member_fields =
  name :: "string option"
  email :: "string option"
  role :: "string option"
  githubUsername :: "string option"
  assignedProjects :: "oid list option"
  status :: "string option"

record member = member_fields +
  mid :: oid
  password :: "string option"
  createdAt :: nat

text \<open>
  The five properties of a project request body, and the project document of
  \<open>models/Project.js\<close> (\<open>pid\<close> is its \<open>_id\<close>, \<open>pstatus\<close> its \<open>status\<close>,
  \<open>pcreatedAt\<close> its \<open>createdAt\<close>).
\<close>

record project_fields =
  projectName :: "string option"
  description :: "string option"
  githubRepo :: "string option"
  teamMembers :: "oid list option"
  pstatus :: "string option"

record project = project_fields +
  pid :: oid
  pcreatedAt :: nat
  updatedAt :: nat

text \<open>
  \<open>models/User.js\<close> and the database driver are not among the sources. What the
  handlers need of them is taken as a parameter: \<open>validate\<close> is the
  schema validation that \<open>save()\<close> runs on a member document (it throws when the
  document is rejected), and \<open>ignoreUndefined\<close> is the driver's option of that name,
  which decides what a filter \<open>{email: undefined}\<close> means: dropped from the filter
  (every document matches) when set, sent as \<open>null\<close> (the documents without an email
  match) otherwise.
\<close>

record config =
  ignoreUndefined :: bool
  validate :: "member \<Rightarrow> bool"

text \<open>
  Modelled from the spec: \<open>models/User.js\<close> is absent. The spec's Member has a
  \<open>name\<close> and an \<open>email\<close>, both required of a creation, and a \<open>status\<close> that is
  \<open>active\<close> or \<open>inactive\<close>; its list of roles is open. \<open>User_schema\<close> is the
  validation that says so, and \<open>default_config\<close> puts it with the driver's default,
  which sends an undefined filter value as \<open>null\<close>.
\<close>

definition User_schema :: "member \<Rightarrow> bool" where
  "User_schema m =
     (truthy (name m) \<and> truthy (email m) \<and>
      (case status m of
         None \<Rightarrow> True
       | Some s \<Rightarrow> s \<in> set [''active'', ''inactive'']))"

definition default_config :: config where
  "default_config = \<lparr>ignoreUndefined = False, validate = User_schema\<rparr>"

text \<open>Every call a handler makes on the store is recorded, in order.\<close>

datatype store_call =
    Call_User_find
  | Call_User_findOne "string option"
  | Call_User_findById oid
  | Call_User_find_in "oid list"
  | Call_User_save oid
  | Call_User_findByIdAndDelete oid
  | Call_Project_find
  | Call_Project_findById oid
  | Call_Project_save oid
  | Call_Project_findByIdAndDelete oid
  | Call_populate "oid list"

record db =
  members :: "member list"
  projects :: "project list"
  calls :: "store_call list"
  next_oid :: oid

datatype store_error = ValidationError

definition logc :: "store_call \<Rightarrow> db \<Rightarrow> db" where
  "logc c d = d\<lparr>calls := calls d @ [c]\<rparr>"

text \<open>\<open>new User(...)\<close> and \<open>new Project(...)\<close> draw a fresh \<open>_id\<close>.\<close>

definition new_oid :: "db \<Rightarrow> oid \<times> db" where
  "new_oid d = (next_oid d, d\<lparr>next_oid := Suc (next_oid d)\<rparr>)"

subsection \<open>The User collection\<close>

text \<open>\<open>User.find({}, '-password').sort({createdAt: -1})\<close>\<close>

definition User_find :: "db \<Rightarrow> member list \<times> db" where
  "User_find d =
     (rev (sort_key createdAt (map (\<lambda>m. m\<lparr>password := None\<rparr>) (members d))),
      logc Call_User_find d)"

definition email_matches :: "config \<Rightarrow> string option \<Rightarrow> member \<Rightarrow> bool" where
  "email_matches cfg e m =
     (case e of
        Some s \<Rightarrow> email m = Some s
      | None \<Rightarrow> ignoreUndefined cfg \<or> email m = None)"

text \<open>\<open>User.findOne({ email })\<close>\<close>

definition User_findOne :: "config \<Rightarrow> string option \<Rightarrow> db \<Rightarrow> member option \<times> db" where
  "User_findOne cfg e d =
     (find (email_matches cfg e) (members d), logc (Call_User_findOne e) d)"

text \<open>\<open>User.findById(id)\<close>\<close>

definition User_findById :: "oid \<Rightarrow> db \<Rightarrow> member option \<times> db" where
  "User_findById i d = (find (\<lambda>m. mid m = i) (members d), logc (Call_User_findById i) d)"

text \<open>\<open>User.find({ _id: { $in: teamMembers } })\<close>\<close>

definition User_find_in :: "oid list \<Rightarrow> db \<Rightarrow> member list \<times> db" where
  "User_find_in is d =
     (filter (\<lambda>m. mid m \<in> set is) (members d), logc (Call_User_find_in is) d)"

text \<open>
  \<open>doc.save()\<close>: the document replaces the stored document of the same \<open>_id\<close>, or is
  inserted when there is none.
\<close>

fun replace_member :: "member \<Rightarrow> member list \<Rightarrow> member list" where
  "replace_member m [] = [m]"
| "replace_member m (x # xs) = (if mid x = mid m then m # xs else x # replace_member m xs)"

definition User_save :: "config \<Rightarrow> member \<Rightarrow> db \<Rightarrow> (store_error + member) \<times> db" where
  "User_save cfg m d =
     (let d1 = logc (Call_User_save (mid m)) d in
      if validate cfg m
      then (Inr m, d1\<lparr>members := replace_member m (members d1)\<rparr>)
      else (Inl ValidationError, d1))"

text \<open>\<open>User.findByIdAndDelete(id)\<close> removes one document.\<close>

fun delete_member_doc :: "oid \<Rightarrow> member list \<Rightarrow> member list" where
  "delete_member_doc i [] = []"
| "delete_member_doc i (x # xs) = (if mid x = i then xs else x # delete_member_doc i xs)"

definition User_findByIdAndDelete :: "oid \<Rightarrow> db \<Rightarrow> db" where
  "User_findByIdAndDelete i d =
     (logc (Call_User_findByIdAndDelete i) d)\<lparr>members := delete_member_doc i (members d)\<rparr>"

section \<open>Team routes (team.js)\<close>

definition forbidden :: response where
  "forbidden = fail 403 ''Access denied. Admin only.''"

text \<open>The member record of the list response, with its three fallbacks.\<close>

definition member_list_json :: "member \<Rightarrow> json" where
  "member_list_json member =
     obj [(''_id'', Some (JNum (mid member))),
          (''name'', str (name member)),
          (''email'', str (email member)),
          (''role'', str (role member)),
          (''githubUsername'', str (js_or (githubUsername member) (Some ''''))),
          (''assignedProjects'', ids (js_or_arr (assignedProjects member) (Some []))),
          (''status'', str (js_or (status member) (Some ''active''))),
          (''joinedDate'', Some (JNum (createdAt member)))]"

text \<open>The member record of the create and update responses.\<close>

definition member_json :: "member \<Rightarrow> json" where
  "member_json member =
     obj [(''_id'', Some (JNum (mid member))),
          (''name'', str (name member)),
          (''email'', str (email member)),
          (''role'', str (role member)),
          (''githubUsername'', str (githubUsername member)),
          (''assignedProjects'', ids (assignedProjects member)),
          (''status'', str (status member))]"

text \<open>The member record of the get-by-id response.\<close>

definition member_detail_json :: "member \<Rightarrow> json" where
  "member_detail_json member =
     obj [(''_id'', Some (JNum (mid member))),
          (''name'', str (name member)),
          (''email'', str (email member)),
          (''role'', str (role member)),
          (''githubUsername'', str (githubUsername member)),
          (''assignedProjects'', ids (assignedProjects member)),
          (''status'', str (status member)),
          (''joinedDate'', Some (JNum (createdAt member)))]"

text \<open>\<open>GET /members\<close>\<close>

definition get_members :: "string option \<Rightarrow> db \<Rightarrow> response \<times> db" where
  "get_members userRole d =
     (if userRole \<noteq> Some ''admin'' then (forbidden, d)
      else
        let (ms, d1) = User_find d in
        (ok (obj [(''success'', Some (JBool True)),
                  (''members'', Some (JArr (map member_list_json ms)))]), d1))"

text \<open>
  The document that \<open>POST /members\<close> builds: \<open>new User({...})\<close> with the default
  password. (The pre-save hook of the absent model hashes the password; no response
  carries it.)
\<close>

definition new_User :: "member_fields \<Rightarrow> oid \<Rightarrow> nat \<Rightarrow> member" where
  "new_User b i now =
     \<lparr>name = name b,
      email = email b,
      role = js_or (role b) (Some ''contributor''),
      githubUsername = js_or (githubUsername b) (Some ''''),
      assignedProjects = js_or_arr (assignedProjects b) (Some []),
      status = js_or (status b) (Some ''active''),
      mid = i,
      password = Some ''password123'',
      createdAt = now\<rparr>"

text \<open>\<open>POST /members\<close>\<close>

definition post_members ::
  "config \<Rightarrow> string option \<Rightarrow> member_fields \<Rightarrow> nat \<Rightarrow> db \<Rightarrow> response \<times> db" where
  "post_members cfg userRole b now d =
     (if userRole \<noteq> Some ''admin'' then (forbidden, d)
      else
        let (existingUser, d1) = User_findOne cfg (email b) d in
        if existingUser \<noteq> None
        then (fail 400 ''User with this email already exists'', d1)
        else
          let (i, d2) = new_oid d1;
              newMember = new_User b i now
          in case User_save cfg newMember d2 of
               (Inl err, d3) \<Rightarrow> (fail 500 ''Failed to add team member'', d3)
             | (Inr saved, d3) \<Rightarrow>
                 (ok (obj [(''success'', Some (JBool True)),
                           (''message'', Some (JStr ''Team member added successfully'')),
                           (''member'', Some (member_json saved))]), d3))"

text \<open>The six assignments under \<open>// Update fields\<close> of \<open>PUT /members/:id\<close>.\<close>

definition update_member_fields :: "member_fields \<Rightarrow> member \<Rightarrow> member" where
  "update_member_fields b member =
     member
       \<lparr>name := js_or (name b) (name member),
        email := js_or (email b) (email member),
        role := js_or (role b) (role member),
        githubUsername :=
          (if githubUsername b \<noteq> None then githubUsername b else githubUsername member),
        assignedProjects :=
          (if assignedProjects b \<noteq> None then assignedProjects b
           else assignedProjects member),
        status := js_or (status b) (status member)\<rparr>"

text \<open>\<open>PUT /members/:id\<close>\<close>

definition put_members_id ::
  "config \<Rightarrow> string option \<Rightarrow> oid \<Rightarrow> member_fields \<Rightarrow> db \<Rightarrow> response \<times> db" where
  "put_members_id cfg userRole i b d =
     (if userRole \<noteq> Some ''admin'' then (forbidden, d)
      else
        case User_findById i d of
          (None, d1) \<Rightarrow> (fail 404 ''Team member not found'', d1)
        | (Some member, d1) \<Rightarrow>
            let (existingUser, d2) =
                  (if email b \<noteq> email member then User_findOne cfg (email b) d1
                   else (None, d1))
            in
            if existingUser \<noteq> None
            then (fail 400 ''Email already in use by another user'', d2)
            else
              let member' = update_member_fields b member
              in (case User_save cfg member' d2 of
                    (Inl err, d3) \<Rightarrow> (fail 500 ''Failed to update team member'', d3)
                  | (Inr saved, d3) \<Rightarrow>
                      (ok (obj [(''success'', Some (JBool True)),
                                (''message'', Some (JStr ''Team member updated successfully'')),
                                (''member'', Some (member_json saved))]), d3)))"

text \<open>\<open>DELETE /members/:id\<close>\<close>

definition delete_members_id :: "string option \<Rightarrow> oid \<Rightarrow> db \<Rightarrow> response \<times> db" where
  "delete_members_id userRole i d =
     (if userRole \<noteq> Some ''admin'' then (forbidden, d)
      else
        case User_findById i d of
          (None, d1) \<Rightarrow> (fail 404 ''Team member not found'', d1)
        | (Some member, d1) \<Rightarrow>
            (ok (obj [(''success'', Some (JBool True)),
                      (''message'', Some (JStr ''Team member removed successfully''))]),
             User_findByIdAndDelete i d1))"

text \<open>\<open>GET /members/:id\<close>; \<open>findById(id, '-password')\<close> leaves the password out.\<close>

definition get_members_id :: "string option \<Rightarrow> oid \<Rightarrow> db \<Rightarrow> response \<times> db" where
  "get_members_id userRole i d =
     (if userRole \<noteq> Some ''admin'' then (forbidden, d)
      else
        case User_findById i d of
          (None, d1) \<Rightarrow> (fail 404 ''Team member not found'', d1)
        | (Some member, d1) \<Rightarrow>
            (ok (obj [(''success'', Some (JBool True)),
                      (''member'', Some (member_detail_json (member\<lparr>password := None\<rparr>)))]),
             d1))"

text \<open>The router of team.js: one request of each route.\<close>

datatype team_request =
    GET_members
  | POST_members member_fields
  | PUT_members_id oid member_fields
  | DELETE_members_id oid
  | GET_members_id oid

fun team_router ::
  "config \<Rightarrow> string option \<Rightarrow> nat \<Rightarrow> team_request \<Rightarrow> db \<Rightarrow> response \<times> db" where
  "team_router cfg userRole now GET_members d = get_members userRole d"
| "team_router cfg userRole now (POST_members b) d = post_members cfg userRole b now d"
| "team_router cfg userRole now (PUT_members_id i b) d = put_members_id cfg userRole i b d"
| "team_router cfg userRole now (DELETE_members_id i) d = delete_members_id userRole i d"
| "team_router cfg userRole now (GET_members_id i) d = get_members_id userRole i d"

section \<open>Project routes\<close>

subsection \<open>The Project collection (models/Project.js)\<close>

text \<open>
  The schema: \<open>projectName\<close> and \<open>githubRepo\<close> are required strings (the empty
  string does not pass \<open>required\<close>), \<open>status\<close> is one of three words.
\<close>

definition Project_validate :: "project \<Rightarrow> bool" where
  "Project_validate p =
     (truthy (projectName p) \<and> truthy (githubRepo p) \<and>
      (case pstatus p of
         None \<Rightarrow> True
       | Some s \<Rightarrow> s \<in> set [''active'', ''inactive'', ''completed'']))"

text \<open>
  \<open>populate('teamMembers', 'name email githubUsername')\<close> reads the members the ids
  refer to, in the order of the ids; an id that refers to no member is left out.
\<close>

definition team_ids :: "project \<Rightarrow> oid list" where
  "team_ids p = (case teamMembers p of None \<Rightarrow> [] | Some is \<Rightarrow> is)"

definition resolve :: "member list \<Rightarrow> oid list \<Rightarrow> member list" where
  "resolve ms is = List.map_filter (\<lambda>i. find (\<lambda>m. mid m = i) ms) is"

definition populate :: "project \<Rightarrow> db \<Rightarrow> member list \<times> db" where
  "populate p d = (resolve (members d) (team_ids p), logc (Call_populate (team_ids p)) d)"

text \<open>
  A document as Mongoose hands it over when it is read from the collection: the paths
  that the stored document lacks and for which the schema has a default carry that
  default (\<open>description\<close> the empty string, \<open>status\<close> the word \<open>active\<close>, the array
  path \<open>teamMembers\<close> the empty array), and \<open>save()\<close> writes them.
\<close>

definition Project_hydrate :: "project \<Rightarrow> project" where
  "Project_hydrate p =
     p\<lparr>description := (case description p of None \<Rightarrow> Some '''' | Some s \<Rightarrow> Some s),
       teamMembers := (case teamMembers p of None \<Rightarrow> Some [] | Some is \<Rightarrow> Some is),
       pstatus := (case pstatus p of None \<Rightarrow> Some ''active'' | Some s \<Rightarrow> Some s)\<rparr>"

text \<open>\<open>Project.find().populate(...).sort({ createdAt: -1 })\<close>\<close>

definition Project_find :: "db \<Rightarrow> (project \<times> member list) list \<times> db" where
  "Project_find d =
     (map (\<lambda>p. (Project_hydrate p, resolve (members d) (team_ids p)))
        (rev (sort_key pcreatedAt (projects d))),
      logc (Call_populate (concat (map team_ids (projects d)))) (logc Call_Project_find d))"

text \<open>\<open>Project.findById(id)\<close>\<close>

definition Project_findById :: "oid \<Rightarrow> db \<Rightarrow> project option \<times> db" where
  "Project_findById i d =
     (map_option Project_hydrate (find (\<lambda>p. pid p = i) (projects d)),
      logc (Call_Project_findById i) d)"

fun replace_project :: "project \<Rightarrow> project list \<Rightarrow> project list" where
  "replace_project p [] = [p]"
| "replace_project p (x # xs) = (if pid x = pid p then p # xs else x # replace_project p xs)"

text \<open>\<open>project.save()\<close>; the pre-save hook sets \<open>updatedAt\<close> to the current time.\<close>

definition Project_save :: "nat \<Rightarrow> project \<Rightarrow> db \<Rightarrow> (store_error + project) \<times> db" where
  "Project_save now p d =
     (let d1 = logc (Call_Project_save (pid p)) d;
          p1 = p\<lparr>updatedAt := now\<rparr>
      in if Project_validate p1
         then (Inr p1, d1\<lparr>projects := replace_project p1 (projects d1)\<rparr>)
         else (Inl ValidationError, d1))"

fun delete_project_doc :: "oid \<Rightarrow> project list \<Rightarrow> project list" where
  "delete_project_doc i [] = []"
| "delete_project_doc i (x # xs) = (if pid x = i then xs else x # delete_project_doc i xs)"

text \<open>\<open>Project.findByIdAndDelete(id)\<close>\<close>

definition Project_findByIdAndDelete :: "oid \<Rightarrow> db \<Rightarrow> db" where
  "Project_findByIdAndDelete i d =
     (logc (Call_Project_findByIdAndDelete i) d)
       \<lparr>projects := delete_project_doc i (projects d)\<rparr>"

subsection \<open>The handlers\<close>

text \<open>A populated team member: \<open>_id\<close> and the three selected fields.\<close>

definition summary_json :: "member \<Rightarrow> json" where
  "summary_json m =
     obj [(''_id'', Some (JNum (mid m))),
          (''name'', str (name m)),
          (''email'', str (email m)),
          (''githubUsername'', str (githubUsername m))]"

text \<open>The project record of the list and get-by-id responses.\<close>

definition project_json :: "project \<Rightarrow> member list \<Rightarrow> json" where
  "project_json project team =
     obj [(''_id'', Some (JNum (pid project))),
          (''projectName'', str (projectName project)),
          (''description'', str (description project)),
          (''githubRepo'', str (githubRepo project)),
          (''teamMembers'', Some (JArr (map summary_json team))),
          (''status'', str (pstatus project)),
          (''createdAt'', Some (JNum (pcreatedAt project))),
          (''updatedAt'', Some (JNum (updatedAt project)))]"

text \<open>The project record of the create response.\<close>

definition project_created_json :: "project \<Rightarrow> member list \<Rightarrow> json" where
  "project_created_json project team =
     obj [(''_id'', Some (JNum (pid project))),
          (''projectName'', str (projectName project)),
          (''description'', str (description project)),
          (''githubRepo'', str (githubRepo project)),
          (''teamMembers'', Some (JArr (map summary_json team))),
          (''status'', str (pstatus project)),
          (''createdAt'', Some (JNum (pcreatedAt project)))]"

text \<open>The project record of the update response.\<close>

definition project_updated_json :: "project \<Rightarrow> member list \<Rightarrow> json" where
  "project_updated_json project team =
     obj [(''_id'', Some (JNum (pid project))),
          (''projectName'', str (projectName project)),
          (''description'', str (description project)),
          (''githubRepo'', str (githubRepo project)),
          (''teamMembers'', Some (JArr (map summary_json team))),
          (''status'', str (pstatus project)),
          (''updatedAt'', Some (JNum (updatedAt project)))]"

text \<open>
  The check both writing handlers make: when \<open>teamMembers\<close> is given and not empty,
  the members with one of these ids are fetched and counted against the ids.
\<close>

definition verify_team :: "oid list option \<Rightarrow> db \<Rightarrow> bool \<times> db" where
  "verify_team tm d =
     (case tm of
        None \<Rightarrow> (True, d)
      | Some is \<Rightarrow>
          if length is > 0
          then (let (validMembers, d1) = User_find_in is d
                in (length validMembers = length is, d1))
          else (True, d))"

text \<open>\<open>GET /\<close>\<close>

definition get_projects :: "string option \<Rightarrow> db \<Rightarrow> response \<times> db" where
  "get_projects userRole d =
     (if userRole \<noteq> Some ''admin'' then (forbidden, d)
      else
        let (ps, d1) = Project_find d in
        (ok (obj [(''success'', Some (JBool True)),
                  (''projects'', Some (JArr (map (\<lambda>(p, team). project_json p team) ps)))]),
         d1))"

text \<open>The document that \<open>POST /\<close> builds: \<open>new Project({...})\<close>.\<close>

definition new_Project :: "project_fields \<Rightarrow> oid \<Rightarrow> nat \<Rightarrow> project" where
  "new_Project b i now =
     \<lparr>projectName = projectName b,
      description = js_or (description b) (Some ''''),
      githubRepo = githubRepo b,
      teamMembers = js_or_arr (teamMembers b) (Some []),
      pstatus = js_or (pstatus b) (Some ''active''),
      pid = i,
      pcreatedAt = now,
      updatedAt = now\<rparr>"

text \<open>\<open>POST /\<close>\<close>

definition post_projects ::
  "string option \<Rightarrow> project_fields \<Rightarrow> nat \<Rightarrow> db \<Rightarrow> response \<times> db" where
  "post_projects userRole b now d =
     (if userRole \<noteq> Some ''admin'' then (forbidden, d)
      else if \<not> truthy (projectName b) \<or> \<not> truthy (githubRepo b)
      then (fail 400 ''Project name and GitHub repository are required'', d)
      else
        let (valid, d1) = verify_team (teamMembers b) d in
        if \<not> valid
        then (fail 400 ''One or more team members not found'', d1)
        else
          let (i, d2) = new_oid d1;
              newProject = new_Project b i now
          in case Project_save now newProject d2 of
               (Inl err, d3) \<Rightarrow> (fail 500 ''Failed to create project'', d3)
             | (Inr saved, d3) \<Rightarrow>
                 let (team, d4) = populate saved d3 in
                 (ok (obj [(''success'', Some (JBool True)),
                           (''message'', Some (JStr ''Project created successfully'')),
                           (''project'', Some (project_created_json saved team))]), d4))"

text \<open>The five conditional assignments under \<open>// Update fields\<close> of \<open>PUT /:id\<close>.\<close>

definition update_project_fields :: "project_fields \<Rightarrow> project \<Rightarrow> project" where
  "update_project_fields b project =
     project
       \<lparr>projectName :=
          (if truthy (projectName b) then projectName b else projectName project),
        description :=
          (if description b \<noteq> None then description b else description project),
        githubRepo :=
          (if truthy (githubRepo b) then githubRepo b else githubRepo project),
        teamMembers :=
          (if teamMembers b \<noteq> None then teamMembers b else teamMembers project),
        pstatus :=
          (if truthy (pstatus b) then pstatus b else pstatus project)\<rparr>"

text \<open>\<open>PUT /:id\<close>\<close>

definition put_projects_id ::
  "string option \<Rightarrow> oid \<Rightarrow> project_fields \<Rightarrow> nat \<Rightarrow> db \<Rightarrow> response \<times> db" where
  "put_projects_id userRole i b now d =
     (if userRole \<noteq> Some ''admin'' then (forbidden, d)
      else
        case Project_findById i d of
          (None, d1) \<Rightarrow> (fail 404 ''Project not found'', d1)
        | (Some project, d1) \<Rightarrow>
            let (valid, d2) = verify_team (teamMembers b) d1 in
            if \<not> valid
            then (fail 400 ''One or more team members not found'', d2)
            else
              let project' = update_project_fields b project
              in (case Project_save now project' d2 of
                    (Inl err, d3) \<Rightarrow> (fail 500 ''Failed to update project'', d3)
                  | (Inr saved, d3) \<Rightarrow>
                      let (team, d4) = populate saved d3 in
                      (ok (obj [(''success'', Some (JBool True)),
                                (''message'', Some (JStr ''Project updated successfully'')),
                                (''project'', Some (project_updated_json saved team))]), d4)))"

text \<open>\<open>DELETE /:id\<close>\<close>

definition delete_projects_id :: "string option \<Rightarrow> oid \<Rightarrow> db \<Rightarrow> response \<times> db" where
  "delete_projects_id userRole i d =
     (if userRole \<noteq> Some ''admin'' then (forbidden, d)
      else
        case Project_findById i d of
          (None, d1) \<Rightarrow> (fail 404 ''Project not found'', d1)
        | (Some project, d1) \<Rightarrow>
            (ok (obj [(''success'', Some (JBool True)),
                      (''message'', Some (JStr ''Project deleted successfully''))]),
             Project_findByIdAndDelete i d1))"

text \<open>\<open>GET /:id\<close>\<close>

definition get_projects_id :: "string option \<Rightarrow> oid \<Rightarrow> db \<Rightarrow> response \<times> db" where
  "get_projects_id userRole i d =
     (if userRole \<noteq> Some ''admin'' then (forbidden, d)
      else
        case Project_findById i d of
          (None, d1) \<Rightarrow> (fail 404 ''Project not found'', d1)
        | (Some project, d1) \<Rightarrow>
            let (team, d2) = populate project d1 in
            (ok (obj [(''success'', Some (JBool True)),
                      (''project'', Some (project_json project team))]), d2))"

text \<open>The router of the project routes.\<close>

datatype project_request =
    GET_projects
  | POST_projects project_fields
  | PUT_projects_id oid project_fields
  | DELETE_projects_id oid
  | GET_projects_id oid

fun projects_router ::
  "string option \<Rightarrow> nat \<Rightarrow> project_request \<Rightarrow> db \<Rightarrow> response \<times> db" where
  "projects_router userRole now GET_projects d = get_projects userRole d"
| "projects_router userRole now (POST_projects b) d = post_projects userRole b now d"
| "projects_router userRole now (PUT_projects_id i b) d = put_projects_id userRole i b now d"
| "projects_router userRole now (DELETE_projects_id i) d = delete_projects_id userRole i d"
| "projects_router userRole now (GET_projects_id i) d = get_projects_id userRole i d"

section \<open>Recommendations route\<close>

definition recommendation :: "nat \<Rightarrow> string \<Rightarrow> string \<Rightarrow> string \<Rightarrow> json" where
  "recommendation i title descr category =
     JObj [(''id'', JNum i), (''title'', JStr title),
           (''description'', JStr descr), (''category'', JStr category)]"

definition recommendations :: "json list" where
  "recommendations =
     [recommendation 1 ''GitHub Projects Integration''
        ''Enable board view to better track lagging tasks.'' ''Platform'',
      recommendation 2 ''Pair Programming Session''
        ''Amit Singh is lagging; schedule a pair coding session.'' ''Feedback'',
      recommendation 3 ''Strict PR Guidelines''
        ''Implement smaller PRs to reduce code review delay.'' ''Workflow'',
      recommendation 4 ''Daily Standup Sync''
        ''Improve communication for contributors with high delays.'' ''Workflow'']"

text \<open>\<open>GET /\<close> of the recommendations router: \<open>res.json(recommendations)\<close>.\<close>

definition get_recommendations :: response where
  "get_recommendations = ok (JArr recommendations)"

section \<open>Properties of the store and of the responses\<close>

text \<open>The store never holds two members with one \<open>_id\<close>.\<close>

definition unique_ids :: "db \<Rightarrow> bool" where
  "unique_ids d = distinct (map mid (members d))"

text \<open>No two members have the same email.\<close>

definition unique_emails :: "db \<Rightarrow> bool" where
  "unique_emails d = distinct (map email (members d))"

text \<open>
  The two shapes of a response body: \<open>{success: true, ...}\<close> and
  \<open>{success: false, error: <message>}\<close>.
\<close>

fun is_success_body :: "json \<Rightarrow> bool" where
  "is_success_body (JObj kvs) = (map_of kvs ''success'' = Some (JBool True))"
| "is_success_body _ = False"

fun is_failure_body :: "json \<Rightarrow> bool" where
  "is_failure_body (JObj [(k1, JBool False), (k2, JStr msg)]) =
     (k1 = ''success'' \<and> k2 = ''error'')"
| "is_failure_body _ = False"

definition wrapped :: "response \<Rightarrow> bool" where
  "wrapped r = (if code r = 200 then is_success_body (body r) else is_failure_body (body r))"

subsection \<open>Sample data\<close>

definition any_config :: config where
  "any_config = \<lparr>ignoreUndefined = False, validate = (\<lambda>m. True)\<rparr>"

definition no_fields :: member_fields where
  "no_fields = \<lparr>name = None, email = None, role = None, githubUsername = None,
                assignedProjects = None, status = None\<rparr>"

definition no_project_fields :: project_fields where
  "no_project_fields = \<lparr>projectName = None, description = None, githubRepo = None,
                        teamMembers = None, pstatus = None\<rparr>"

definition alice :: member where
  "alice = \<lparr>name = Some ''Alice'', email = Some ''alice@example.org'',
            role = Some ''contributor'', githubUsername = Some ''alice'',
            assignedProjects = Some [], status = Some ''active'',
            mid = 0, password = Some ''password123'', createdAt = 10\<rparr>"

text \<open>A member document without an email.\<close>

definition bob :: member where
  "bob = \<lparr>name = Some ''Bob'', email = None,
          role = Some ''contributor'', githubUsername = Some '''',
          assignedProjects = Some [], status = Some ''active'',
          mid = 1, password = Some ''password123'', createdAt = 11\<rparr>"

definition website :: project where
  "website = \<lparr>projectName = Some ''Website'', description = Some ''The site'',
              githubRepo = Some ''org/website'', teamMembers = Some [0],
              pstatus = Some ''active'', pid = 2, pcreatedAt = 12, updatedAt = 12\<rparr>"

definition empty_db :: db where
  "empty_db = \<lparr>members = [], projects = [], calls = [], next_oid = 0\<rparr>"

definition alice_db :: db where
  "alice_db = \<lparr>members = [alice], projects = [website], calls = [], next_oid = 3\<rparr>"

definition alice_bob_db :: db where
  "alice_bob_db = \<lparr>members = [alice, bob], projects = [website], calls = [], next_oid = 3\<rparr>"

text \<open>A request body with Alice's email.\<close>

definition alice_fields :: member_fields where
  "alice_fields = \<lparr>name = Some ''Alice'', email = Some ''alice@example.org'', role = None,
                   githubUsername = None, assignedProjects = None, status = None\<rparr>"

text \<open>The request of the spec's example: one team member, of an id nobody has.\<close>

definition project_x :: project_fields where
  "project_x = \<lparr>projectName = Some ''X'', description = None, githubRepo = Some ''r'',
                teamMembers = Some [7], pstatus = None\<rparr>"

text \<open>A request body that only sets the status.\<close>

definition status_inactive :: member_fields where
  "status_inactive = no_fields\<lparr>status := Some ''inactive''\<rparr>"

text \<open>Request bodies in which every text field is the empty string and every list is empty.\<close>

definition blank_fields :: member_fields where
  "blank_fields = \<lparr>name = Some '''', email = None, role = Some '''',
                   githubUsername = Some '''', assignedProjects = Some [],
                   status = Some ''''\<rparr>"

definition blank_project_fields :: project_fields where
  "blank_project_fields = \<lparr>projectName = Some '''', description = Some '''',
                           githubRepo = Some '''', teamMembers = Some [],
                           pstatus = Some ''''\<rparr>"

text \<open>A request body that asks for the admin role, an inactive status and a project
  of an id no project has.\<close>

definition carol_fields :: member_fields where
  "carol_fields = \<lparr>name = Some ''Carol'', email = Some ''carol@example.org'',
                   role = Some ''admin'', githubUsername = None,
                   assignedProjects = Some [42], status = Some ''inactive''\<rparr>"

text \<open>
  A project document that has only its two required fields, as a document written
  before the schema had the others, the store that holds it, and a request body that
  only sets the repository.
\<close>

definition legacy :: project where
  "legacy = \<lparr>projectName = Some ''Legacy'', description = None,
             githubRepo = Some ''org/legacy'', teamMembers = None,
             pstatus = None, pid = 5, pcreatedAt = 1, updatedAt = 1\<rparr>"

definition legacy_db :: db where
  "legacy_db = \<lparr>members = [alice], projects = [legacy], calls = [], next_oid = 6\<rparr>"

definition repo_only :: project_fields where
  "repo_only = no_project_fields\<lparr>githubRepo := Some ''org/new''\<rparr>"

section \<open>The access guard\<close>

lemmas handler_defs =
  get_members_def post_members_def put_members_id_def delete_members_id_def
  get_members_id_def get_projects_def post_projects_def put_projects_id_def
  delete_projects_id_def get_projects_id_def

lemmas store_defs =
  User_find_def User_findOne_def User_findById_def User_find_in_def User_save_def
  User_findByIdAndDelete_def Project_find_def Project_findById_def Project_save_def
  Project_findByIdAndDelete_def populate_def verify_team_def new_oid_def logc_def

lemmas sample_defs = any_config_def no_fields_def no_project_fields_def alice_def bob_def
  website_def empty_db_def alice_db_def alice_bob_db_def alice_fields_def

text \<open>
  C1. Whenever the \<open>user-role\<close> header is absent or is any string other than
  \<open>admin\<close>, each of the five member routes and of the five project routes answers
  403 with \<open>success: false\<close>, and the store, with the record of the calls made on
  it, is exactly as before: nothing was read and nothing was written.
\<close>

theorem guard_denies_every_operation:
  assumes "userRole \<noteq> Some ''admin''"
  shows "team_router cfg userRole now treq d =
           (\<lparr>code = 403,
             body = JObj [(''success'', JBool False),
                          (''error'', JStr ''Access denied. Admin only.'')]\<rparr>, d) \<and>
         projects_router userRole now preq d =
           (\<lparr>code = 403,
             body = JObj [(''success'', JBool False),
                          (''error'', JStr ''Access denied. Admin only.'')]\<rparr>, d)"
proof -
  have t: "team_router cfg userRole now treq d = (forbidden, d)"
    using assms by (cases treq) (simp_all add: handler_defs)
  have p: "projects_router userRole now preq d = (forbidden, d)"
    using assms by (cases preq) (simp_all add: handler_defs)
  show ?thesis using t p by (simp add: forbidden_def fail_def)
qed

text \<open>The guard at work: a contributor asks to delete Alice, and no header at all
  comes with a request to create a project.\<close>

theorem guard_denies_every_operation_witness:
  "Some ''contributor'' \<noteq> Some ''admin'' \<and>
   team_router any_config (Some ''contributor'') 20 (DELETE_members_id 0) alice_db =
     (\<lparr>code = 403,
       body = JObj [(''success'', JBool False),
                    (''error'', JStr ''Access denied. Admin only.'')]\<rparr>, alice_db) \<and>
   projects_router (Some ''contributor'') 20 (POST_projects no_project_fields) alice_db =
     (\<lparr>code = 403,
       body = JObj [(''success'', JBool False),
                    (''error'', JStr ''Access denied. Admin only.'')]\<rparr>, alice_db)"
proof -
  have h: "Some ''contributor'' \<noteq> Some ''admin''" by simp
  show ?thesis
    using h guard_denies_every_operation [OF h, of any_config 20 "DELETE_members_id 0"
        alice_db "POST_projects no_project_fields"]
    by simp
qed

section \<open>Email uniqueness\<close>

text \<open>Saving and deleting, on the list of member documents.\<close>

lemma set_replace_member: "set (replace_member m ms) \<subseteq> insert m (set ms)"
  by (induction ms) auto

lemma distinct_mid_replace:
  "distinct (map mid ms) \<Longrightarrow> distinct (map mid (replace_member m ms))"
proof (induction ms)
  case Nil then show ?case by simp
next
  case (Cons x xs)
  show ?case
  proof (cases "mid x = mid m")
    case True with Cons.prems show ?thesis by simp
  next
    case False
    have "mid x \<notin> mid ` set (replace_member m xs)"
      using set_replace_member[of m xs] Cons.prems False by auto
    with Cons False show ?thesis by simp
  qed
qed

lemma distinct_email_replace:
  assumes "distinct (map email ms)" "distinct (map mid ms)"
    "\<forall>x\<in>set ms. mid x \<noteq> mid m \<longrightarrow> email x \<noteq> email m"
  shows "distinct (map email (replace_member m ms))"
  using assms
proof (induction ms)
  case Nil then show ?case by simp
next
  case (Cons x xs)
  show ?case
  proof (cases "mid x = mid m")
    case True
    have "mid x \<notin> mid ` set xs" using Cons.prems(2) by simp
    hence "\<forall>y\<in>set xs. mid y \<noteq> mid m" using True by (metis imageI)
    hence "email m \<notin> email ` set xs" using Cons.prems(3) by force
    with Cons.prems True show ?thesis by simp
  next
    case False
    have "email x \<notin> email ` set (replace_member m xs)"
      using set_replace_member[of m xs] Cons.prems False by auto
    with Cons False show ?thesis by simp
  qed
qed

lemma set_delete_member_doc: "set (delete_member_doc i ms) \<subseteq> set ms"
  by (induction ms) auto

lemma distinct_map_delete_member_doc:
  "distinct (map f ms) \<Longrightarrow> distinct (map f (delete_member_doc i ms))"
proof (induction ms)
  case Nil then show ?case by simp
next
  case (Cons x xs)
  have "f x \<notin> f ` set (delete_member_doc i xs)"
    using set_delete_member_doc[of i xs] Cons.prems by auto
  with Cons show ?case by simp
qed

lemma no_match_email: "\<not> email_matches cfg e x \<Longrightarrow> email x \<noteq> e"
  by (cases e) (auto simp: email_matches_def)

lemma match_email: "email x = Some s \<Longrightarrow> email_matches cfg (Some s) x"
  by (simp add: email_matches_def)

text \<open>What each handler leaves in the members collection.\<close>

lemma members_post_members:
  "members (snd (post_members cfg r b now d)) = members d \<or>
   (find (email_matches cfg (email b)) (members d) = None \<and>
    members (snd (post_members cfg r b now d)) =
      replace_member (new_User b (next_oid d) now) (members d))"
  by (simp add: post_members_def store_defs forbidden_def Let_def split: prod.splits sum.splits)

lemma members_put_members_id:
  "members (snd (put_members_id cfg r i b d)) = members d \<or>
   (\<exists>m. find (\<lambda>m. mid m = i) (members d) = Some m \<and>
      (email b = email m \<or> find (email_matches cfg (email b)) (members d) = None) \<and>
      members (snd (put_members_id cfg r i b d)) =
        replace_member (update_member_fields b m) (members d))"
  by (auto simp add: put_members_id_def store_defs Let_def split: prod.splits sum.splits option.splits if_splits)

lemma members_delete_members_id:
  "members (snd (delete_members_id r i d)) = members d \<or>
   members (snd (delete_members_id r i d)) = delete_member_doc i (members d)"
  by (simp add: delete_members_id_def store_defs split: option.splits)

lemma members_get_members: "members (snd (get_members r d)) = members d"
  by (simp add: get_members_def store_defs)

lemma members_get_members_id: "members (snd (get_members_id r i d)) = members d"
  by (simp add: get_members_id_def store_defs split: option.splits)

lemma members_projects_router: "members (snd (projects_router r now preq d)) = members d"
  by (cases preq)
     (auto simp add: handler_defs store_defs Let_def split: prod.splits sum.splits option.splits if_splits)


lemma distinct_map_eq: "distinct (map f xs) \<Longrightarrow> x \<in> set xs \<Longrightarrow> y \<in> set xs \<Longrightarrow> f x = f y \<Longrightarrow> x = y"
  by (meson distinct_map inj_on_def)

lemma email_update_member_fields:
  "email (update_member_fields b m) = email b \<or> email (update_member_fields b m) = email m"
  by (simp add: update_member_fields_def js_or_def)

lemma mid_update_member_fields [simp]: "mid (update_member_fields b m) = mid m"
  by (simp add: update_member_fields_def)

lemma post_members_inv:
  assumes "unique_ids d" "unique_emails d"
  shows "unique_ids (snd (post_members cfg r b now d)) \<and>
         unique_emails (snd (post_members cfg r b now d))"
proof -
  let ?d' = "snd (post_members cfg r b now d)"
  let ?new = "new_User b (next_oid d) now"
  consider (same) "members ?d' = members d"
    | (saved) "find (email_matches cfg (email b)) (members d) = None"
        "members ?d' = replace_member ?new (members d)"
    using members_post_members[of cfg r b now d] by auto
  then show ?thesis
  proof cases
    case same
    with assms show ?thesis by (simp add: unique_ids_def unique_emails_def)
  next
    case saved
    have "\<forall>x\<in>set (members d). email x \<noteq> email ?new"
      using saved(1) no_match_email[of cfg "email b"]
      by (auto simp: find_None_iff new_User_def)
    with assms saved(2) show ?thesis
      by (simp add: unique_ids_def unique_emails_def distinct_mid_replace distinct_email_replace)
  qed
qed

lemma put_members_id_inv:
  assumes "unique_ids d" "unique_emails d"
  shows "unique_ids (snd (put_members_id cfg r i b d)) \<and>
         unique_emails (snd (put_members_id cfg r i b d))"
proof -
  let ?d' = "snd (put_members_id cfg r i b d)"
  consider (same) "members ?d' = members d"
    | (saved) m where "find (\<lambda>m. mid m = i) (members d) = Some m"
        "email b = email m \<or> find (email_matches cfg (email b)) (members d) = None"
        "members ?d' = replace_member (update_member_fields b m) (members d)"
    using members_put_members_id[of cfg r i b d] by auto
  then show ?thesis
  proof cases
    case same
    with assms show ?thesis by (simp add: unique_ids_def unique_emails_def)
  next
    case saved
    let ?new = "update_member_fields b m"
    have m_in: "m \<in> set (members d)" and m_id: "mid m = i"
      using saved(1) by (auto simp: find_Some_iff in_set_conv_nth)
    have others: "email x \<noteq> email ?new" if x: "x \<in> set (members d)" "mid x \<noteq> mid ?new" for x
    proof -
      have "x \<noteq> m" using x(2) by auto
      hence old: "email x \<noteq> email m"
        using distinct_map_eq[of email "members d" x m] assms(2) x(1) m_in
        by (auto simp: unique_emails_def)
      show ?thesis
      proof (cases "email ?new = email m")
        case True with old show ?thesis by simp
      next
        case False
        hence eb: "email ?new = email b" using email_update_member_fields by blast
        with False have "email b \<noteq> email m" by simp
        with saved(2) have "find (email_matches cfg (email b)) (members d) = None" by simp
        hence "\<not> email_matches cfg (email b) x" using x(1) by (simp add: find_None_iff)
        thus ?thesis using eb no_match_email by metis
      qed
    qed
    with assms saved(3) show ?thesis
      by (simp add: unique_ids_def unique_emails_def distinct_mid_replace distinct_email_replace)
  qed
qed

lemma delete_members_id_inv:
  assumes "unique_ids d" "unique_emails d"
  shows "unique_ids (snd (delete_members_id r i d)) \<and>
         unique_emails (snd (delete_members_id r i d))"
  using assms members_delete_members_id[of r i d]
  by (auto simp: unique_ids_def unique_emails_def distinct_map_delete_member_doc)

lemma team_router_inv:
  assumes "unique_ids d" "unique_emails d"
  shows "unique_ids (snd (team_router cfg r now treq d)) \<and>
         unique_emails (snd (team_router cfg r now treq d))"
proof (cases treq)
  case GET_members
  with assms show ?thesis by (simp add: unique_ids_def unique_emails_def members_get_members)
next
  case (POST_members b)
  with assms show ?thesis by (simp add: post_members_inv)
next
  case (PUT_members_id i b)
  with assms show ?thesis by (simp add: put_members_id_inv)
next
  case (DELETE_members_id i)
  with assms show ?thesis by (simp add: delete_members_id_inv)
next
  case (GET_members_id i)
  with assms show ?thesis by (simp add: unique_ids_def unique_emails_def members_get_members_id)
qed

lemma projects_router_inv:
  assumes "unique_ids d" "unique_emails d"
  shows "unique_ids (snd (projects_router r now preq d)) \<and>
         unique_emails (snd (projects_router r now preq d))"
  using assms by (simp add: unique_ids_def unique_emails_def members_projects_router)

lemma post_members_conflict:
  assumes "x \<in> set (members d)" "email x = Some e" "email b = Some e"
  shows "post_members cfg (Some ''admin'') b now d =
           (fail 400 ''User with this email already exists'',
            d\<lparr>calls := calls d @ [Call_User_findOne (Some e)]\<rparr>)"
proof -
  have "find (email_matches cfg (Some e)) (members d) \<noteq> None"
    using assms(1,2) match_email by (auto simp: find_None_iff)
  thus ?thesis using assms(3) by (auto simp: post_members_def store_defs)
qed

lemma put_members_id_conflict:
  assumes "find (\<lambda>m. mid m = i) (members d) = Some m" "email b = Some e" "email m \<noteq> Some e"
    "x \<in> set (members d)" "email x = Some e"
  shows "put_members_id cfg (Some ''admin'') i b d =
           (fail 400 ''Email already in use by another user'',
            d\<lparr>calls := calls d @ [Call_User_findById i, Call_User_findOne (Some e)]\<rparr>)"
proof -
  have "find (email_matches cfg (Some e)) (members d) \<noteq> None"
    using assms(4,5) match_email by (auto simp: find_None_iff)
  thus ?thesis using assms(1,2,3) by (auto simp: put_members_id_def store_defs)
qed

lemma count_email_replace:
  assumes "\<forall>x\<in>set ms. email x \<noteq> email m"
  shows "length (filter (\<lambda>x. email x = email m) (replace_member m ms)) = 1"
  using assms by (induction ms) auto

lemma post_members_ok:
  assumes "code (fst (post_members cfg r b now d)) = 200"
  shows "find (email_matches cfg (email b)) (members d) = None \<and>
         members (snd (post_members cfg r b now d)) =
           replace_member (new_User b (next_oid d) now) (members d)"
proof (cases "r = Some ''admin''")
  case False
  with assms show ?thesis by (simp add: post_members_def forbidden_def fail_def)
next
  case admin: True
  show ?thesis
  proof (cases "find (email_matches cfg (email b)) (members d)")
    case (Some x)
    with assms admin show ?thesis by (simp add: post_members_def store_defs fail_def)
  next
    case None
    show ?thesis
    proof (cases "validate cfg (new_User b (next_oid d) now)")
      case True
      with None admin show ?thesis by (simp add: post_members_def store_defs Let_def)
    next
      case False
      with assms None admin show ?thesis
        by (simp add: post_members_def store_defs fail_def Let_def)
    qed
  qed
qed

lemma post_members_twice:
  assumes "email b1 = Some e" "email b2 = Some e"
    "code (fst (post_members cfg (Some ''admin'') b1 t1 d)) = 200"
  shows "fst (post_members cfg (Some ''admin'') b2 t2
                (snd (post_members cfg (Some ''admin'') b1 t1 d))) =
           fail 400 ''User with this email already exists'' \<and>
         length (filter (\<lambda>m. email m = Some e)
           (members (snd (post_members cfg (Some ''admin'') b2 t2
                (snd (post_members cfg (Some ''admin'') b1 t1 d)))))) = 1"
proof -
  let ?new = "new_User b1 (next_oid d) t1"
  let ?d1 = "snd (post_members cfg (Some ''admin'') b1 t1 d)"
  have nomatch: "find (email_matches cfg (email b1)) (members d) = None"
    and saved: "members ?d1 = replace_member ?new (members d)"
    using post_members_ok[OF assms(3)] by simp_all
  have enew: "email ?new = Some e" using assms(1) by (simp add: new_User_def)
  have "\<forall>x\<in>set (members d). \<not> email_matches cfg (email b1) x"
    using nomatch by (simp add: find_None_iff)
  hence "\<forall>x\<in>set (members d). email x \<noteq> email ?new"
    using no_match_email[of cfg "email b1"] assms(1) enew by fastforce
  hence "length (filter (\<lambda>x. email x = email ?new) (replace_member ?new (members d))) = 1"
    by (rule count_email_replace)
  hence one: "length (filter (\<lambda>x. email x = Some e) (members ?d1)) = 1"
    by (simp only: saved enew)
  hence "filter (\<lambda>x. email x = Some e) (members ?d1) \<noteq> []" by auto
  then obtain x where x: "x \<in> set (members ?d1)" "email x = Some e"
    by (auto simp: filter_empty_conv)
  have second: "post_members cfg (Some ''admin'') b2 t2 ?d1 =
      (fail 400 ''User with this email already exists'',
       ?d1\<lparr>calls := calls ?d1 @ [Call_User_findOne (Some e)]\<rparr>)"
    by (rule post_members_conflict[OF x assms(2)])
  show ?thesis using one by (simp add: second)
qed

text \<open>
  C2. Email uniqueness. Creating a member whose email an existing member has fails with
  400 "User with this email already exists" and changes no document; updating a member
  with an email that differs from its own and that another member has fails with 400
  "Email already in use by another user" and changes no document; every request to the
  team router or to the project router, whatever it is, takes a store in which ids and
  emails are unique to a store in which they are; and when a first creation succeeds,
  a second creation with the same email fails with 400 and the store holds exactly one
  member with that email.
\<close>

theorem email_uniqueness:
  "(x \<in> set (members d) \<and> email x = Some e \<and> email b = Some e \<longrightarrow>
      post_members cfg (Some ''admin'') b now d =
        (fail 400 ''User with this email already exists'',
         d\<lparr>calls := calls d @ [Call_User_findOne (Some e)]\<rparr>)) \<and>
   (find (\<lambda>m. mid m = i) (members d) = Some m \<and> email b = Some e \<and> email m \<noteq> Some e \<and>
    x \<in> set (members d) \<and> email x = Some e \<longrightarrow>
      put_members_id cfg (Some ''admin'') i b d =
        (fail 400 ''Email already in use by another user'',
         d\<lparr>calls := calls d @ [Call_User_findById i, Call_User_findOne (Some e)]\<rparr>)) \<and>
   (unique_ids d \<and> unique_emails d \<longrightarrow>
      unique_ids (snd (team_router cfg userRole now treq d)) \<and>
      unique_emails (snd (team_router cfg userRole now treq d)) \<and>
      unique_ids (snd (projects_router userRole now preq d)) \<and>
      unique_emails (snd (projects_router userRole now preq d))) \<and>
   (email b1 = Some e \<and> email b2 = Some e \<and>
    code (fst (post_members cfg (Some ''admin'') b1 t1 d)) = 200 \<longrightarrow>
      fst (post_members cfg (Some ''admin'') b2 t2
             (snd (post_members cfg (Some ''admin'') b1 t1 d))) =
        fail 400 ''User with this email already exists'' \<and>
      length (filter (\<lambda>m. email m = Some e)
        (members (snd (post_members cfg (Some ''admin'') b2 t2
             (snd (post_members cfg (Some ''admin'') b1 t1 d)))))) = 1)"
  using post_members_conflict[of x d e b cfg now]
    put_members_id_conflict[of i d m b e x cfg]
    team_router_inv[of d cfg userRole now treq]
    projects_router_inv[of d userRole now preq]
    post_members_twice[of b1 e b2 cfg t1 d t2]
  by blast

text \<open>
  On sample data: Alice's email is refused for a new member and for Bob, the update
  leaves the emails unique, and creating Alice twice in an empty store leaves one Alice.
\<close>

theorem email_uniqueness_witness:
  "post_members any_config (Some ''admin'') alice_fields 20 alice_db =
     (fail 400 ''User with this email already exists'',
      alice_db\<lparr>calls := [Call_User_findOne (Some ''alice@example.org'')]\<rparr>) \<and>
   put_members_id any_config (Some ''admin'') 1 alice_fields alice_bob_db =
     (fail 400 ''Email already in use by another user'',
      alice_bob_db\<lparr>calls := [Call_User_findById 1,
                               Call_User_findOne (Some ''alice@example.org'')]\<rparr>) \<and>
   unique_ids alice_bob_db \<and> unique_emails alice_bob_db \<and>
   unique_emails (snd (team_router any_config (Some ''admin'') 20
                    (PUT_members_id 1 alice_fields) alice_bob_db)) \<and>
   code (fst (post_members any_config (Some ''admin'') alice_fields 20 empty_db)) = 200 \<and>
   fst (post_members any_config (Some ''admin'') alice_fields 21
          (snd (post_members any_config (Some ''admin'') alice_fields 20 empty_db))) =
     fail 400 ''User with this email already exists'' \<and>
   length (filter (\<lambda>m. email m = Some ''alice@example.org'')
     (members (snd (post_members any_config (Some ''admin'') alice_fields 21
          (snd (post_members any_config (Some ''admin'') alice_fields 20 empty_db)))))) = 1"
proof -
  have h1: "alice \<in> set (members alice_bob_db) \<and> email alice = Some ''alice@example.org'' \<and>
            email alice_fields = Some ''alice@example.org''"
    by (simp add: sample_defs)
  have h1': "alice \<in> set (members alice_db)" by (simp add: sample_defs)
  have h2: "find (\<lambda>m. mid m = 1) (members alice_bob_db) = Some bob \<and>
            email bob \<noteq> Some ''alice@example.org''"
    by (simp add: sample_defs)
  have h3: "unique_ids alice_bob_db \<and> unique_emails alice_bob_db"
    by (simp add: sample_defs unique_ids_def unique_emails_def)
  have h4: "code (fst (post_members any_config (Some ''admin'') alice_fields 20 empty_db)) = 200"
    by (simp add: sample_defs post_members_def store_defs new_User_def ok_def Let_def)
  note T1 = email_uniqueness[of alice alice_db "''alice@example.org''" alice_fields any_config
      20 0 alice "Some ''admin''" GET_members GET_projects alice_fields alice_fields 20 21]
  note T2 = email_uniqueness[of alice alice_bob_db "''alice@example.org''" alice_fields
      any_config 20 1 bob "Some ''admin''" "PUT_members_id 1 alice_fields" GET_projects
      alice_fields alice_fields 20 21]
  note T3 = email_uniqueness[of alice empty_db "''alice@example.org''" alice_fields any_config
      20 0 alice "Some ''admin''" GET_members GET_projects alice_fields alice_fields 20 21]
  have c1: "post_members any_config (Some ''admin'') alice_fields 20 alice_db =
     (fail 400 ''User with this email already exists'',
      alice_db\<lparr>calls := calls alice_db @ [Call_User_findOne (Some ''alice@example.org'')]\<rparr>)"
    using T1 h1 h1' by blast
  have c2: "put_members_id any_config (Some ''admin'') 1 alice_fields alice_bob_db =
     (fail 400 ''Email already in use by another user'',
      alice_bob_db\<lparr>calls := calls alice_bob_db @ [Call_User_findById 1,
                               Call_User_findOne (Some ''alice@example.org'')]\<rparr>)"
    using T2 h1 h2 by blast
  have c3: "unique_emails (snd (team_router any_config (Some ''admin'') 20
                    (PUT_members_id 1 alice_fields) alice_bob_db))"
    using T2 h3 by blast
  have c4: "fst (post_members any_config (Some ''admin'') alice_fields 21
          (snd (post_members any_config (Some ''admin'') alice_fields 20 empty_db))) =
     fail 400 ''User with this email already exists'' \<and>
   length (filter (\<lambda>m. email m = Some ''alice@example.org'')
     (members (snd (post_members any_config (Some ''admin'') alice_fields 21
          (snd (post_members any_config (Some ''admin'') alice_fields 20 empty_db)))))) = 1"
    using T3 h1 h4 by blast
  have e1: "calls alice_db = []" and e2: "calls alice_bob_db = []"
    by (simp_all add: sample_defs)
  have c1': "post_members any_config (Some ''admin'') alice_fields 20 alice_db =
     (fail 400 ''User with this email already exists'',
      alice_db\<lparr>calls := [Call_User_findOne (Some ''alice@example.org'')]\<rparr>)"
    using c1 unfolding e1 append_Nil .
  have c2': "put_members_id any_config (Some ''admin'') 1 alice_fields alice_bob_db =
     (fail 400 ''Email already in use by another user'',
      alice_bob_db\<lparr>calls := [Call_User_findById 1,
                               Call_User_findOne (Some ''alice@example.org'')]\<rparr>)"
    using c2 unfolding e2 append_Nil .
  show ?thesis
    by (intro conjI c1' c2' c3 h4 conjunct1[OF h3] conjunct2[OF h3]
        conjunct1[OF c4] conjunct2[OF c4])
qed

section \<open>Team members of a new project\<close>

lemma count_mismatch:
  assumes "distinct (map mid ms)" "\<not> set is \<subseteq> mid ` set ms"
  shows "length (filter (\<lambda>m. mid m \<in> set is) ms) \<noteq> length is"
proof -
  let ?found = "filter (\<lambda>m. mid m \<in> set is) ms"
  have "distinct (map mid ?found)" using assms(1) by (rule distinct_map_filter)
  hence "length ?found = card (mid ` set ?found)"
    by (metis distinct_card length_map set_map)
  moreover have "mid ` set ?found \<subset> set is" using assms(2) by auto
  hence "card (mid ` set ?found) < card (set is)"
    by (simp add: psubset_card_mono)
  moreover have "card (set is) \<le> length is" by (rule card_length)
  ultimately show ?thesis by simp
qed

lemma post_projects_team_check:
  assumes "teamMembers b = Some is" "is \<noteq> []" "truthy (projectName b)" "truthy (githubRepo b)"
  shows "(fst (post_projects (Some ''admin'') b now d) =
            fail 400 ''One or more team members not found'') =
         (length (filter (\<lambda>m. mid m \<in> set is) (members d)) \<noteq> length is)"
  using assms
  by (simp add: post_projects_def store_defs fail_def ok_def Let_def split: prod.splits sum.splits)

lemma post_projects_rejected:
  assumes "teamMembers b = Some is" "is \<noteq> []"
    "length (filter (\<lambda>m. mid m \<in> set is) (members d)) \<noteq> length is"
  shows "post_projects (Some ''admin'') b now d =
           (if truthy (projectName b) \<and> truthy (githubRepo b)
            then (fail 400 ''One or more team members not found'',
                  d\<lparr>calls := calls d @ [Call_User_find_in is]\<rparr>)
            else (fail 400 ''Project name and GitHub repository are required'', d))"
  using assms by (simp add: post_projects_def store_defs)


text \<open>
  C3. Creating a project with a non-empty \<open>teamMembers\<close> list. With both required
  names given, the answer is 400 "One or more team members not found" exactly when the
  number of members found with one of the listed ids differs from the number of ids.
  When some listed id belongs to no member (the store's ids being unique), the request
  fails with 400, \<open>success: false\<close>, and no project is persisted: the store is as
  before but for the record of the one member lookup.
\<close>

theorem create_project_unknown_member:
  "(teamMembers b = Some is \<and> is \<noteq> [] \<and> truthy (projectName b) \<and> truthy (githubRepo b) \<longrightarrow>
      (fst (post_projects (Some ''admin'') b now d) =
         fail 400 ''One or more team members not found'') =
      (length (filter (\<lambda>m. mid m \<in> set is) (members d)) \<noteq> length is)) \<and>
   (unique_ids d \<and> teamMembers b = Some is \<and> is \<noteq> [] \<and>
    \<not> set is \<subseteq> mid ` set (members d) \<longrightarrow>
      post_projects (Some ''admin'') b now d =
        (if truthy (projectName b) \<and> truthy (githubRepo b)
         then (fail 400 ''One or more team members not found'',
               d\<lparr>calls := calls d @ [Call_User_find_in is]\<rparr>)
         else (fail 400 ''Project name and GitHub repository are required'', d)) \<and>
      code (fst (post_projects (Some ''admin'') b now d)) = 400 \<and>
      is_failure_body (body (fst (post_projects (Some ''admin'') b now d))) \<and>
      projects (snd (post_projects (Some ''admin'') b now d)) = projects d)"
proof (intro conjI impI)
  assume "teamMembers b = Some is \<and> is \<noteq> [] \<and> truthy (projectName b) \<and> truthy (githubRepo b)"
  thus "(fst (post_projects (Some ''admin'') b now d) =
         fail 400 ''One or more team members not found'') =
      (length (filter (\<lambda>m. mid m \<in> set is) (members d)) \<noteq> length is)"
    using post_projects_team_check[of b "is" now d] by simp
next
  assume h: "unique_ids d \<and> teamMembers b = Some is \<and> is \<noteq> [] \<and>
    \<not> set is \<subseteq> mid ` set (members d)"
  hence "length (filter (\<lambda>m. mid m \<in> set is) (members d)) \<noteq> length is"
    using count_mismatch[of "members d" "is"] by (simp add: unique_ids_def)
  with h have r: "post_projects (Some ''admin'') b now d =
        (if truthy (projectName b) \<and> truthy (githubRepo b)
         then (fail 400 ''One or more team members not found'',
               d\<lparr>calls := calls d @ [Call_User_find_in is]\<rparr>)
         else (fail 400 ''Project name and GitHub repository are required'', d))"
    using post_projects_rejected[of b "is" d now] by simp
  show "post_projects (Some ''admin'') b now d =
        (if truthy (projectName b) \<and> truthy (githubRepo b)
         then (fail 400 ''One or more team members not found'',
               d\<lparr>calls := calls d @ [Call_User_find_in is]\<rparr>)
         else (fail 400 ''Project name and GitHub repository are required'', d))"
    by (rule r)
  show "code (fst (post_projects (Some ''admin'') b now d)) = 400"
    by (simp add: r fail_def)
  show "is_failure_body (body (fst (post_projects (Some ''admin'') b now d)))"
    by (simp add: r fail_def)
  show "projects (snd (post_projects (Some ''admin'') b now d)) = projects d"
    by (simp add: r)
qed

text \<open>The spec's example, in a store that holds Alice only.\<close>

theorem create_project_unknown_member_witness:
  "unique_ids alice_db \<and> \<not> set [7] \<subseteq> mid ` set (members alice_db) \<and>
   post_projects (Some ''admin'') project_x 20 alice_db =
     (fail 400 ''One or more team members not found'',
      alice_db\<lparr>calls := [Call_User_find_in [7]]\<rparr>) \<and>
   projects (snd (post_projects (Some ''admin'') project_x 20 alice_db)) = [website]"
proof -
  have h1: "unique_ids alice_db" by (simp add: unique_ids_def sample_defs)
  have h2: "\<not> set [7] \<subseteq> mid ` set (members alice_db)" by (simp add: sample_defs)
  have h3: "teamMembers project_x = Some [7] \<and> [7::nat] \<noteq> [] \<and>
            truthy (projectName project_x) \<and> truthy (githubRepo project_x)"
    by (simp add: project_x_def truthy_def)
  have e: "calls alice_db = []" "projects alice_db = [website]" by (simp_all add: sample_defs)
  note T = create_project_unknown_member[of project_x "[7]" 20 alice_db]
  have c: "post_projects (Some ''admin'') project_x 20 alice_db =
     (fail 400 ''One or more team members not found'',
      alice_db\<lparr>calls := calls alice_db @ [Call_User_find_in [7]]\<rparr>) \<and>
     projects (snd (post_projects (Some ''admin'') project_x 20 alice_db)) = projects alice_db"
    using T h1 h2 h3 by simp
  have c': "post_projects (Some ''admin'') project_x 20 alice_db =
     (fail 400 ''One or more team members not found'',
      alice_db\<lparr>calls := [Call_User_find_in [7]]\<rparr>) \<and>
     projects (snd (post_projects (Some ''admin'') project_x 20 alice_db)) = [website]"
    using c unfolding e append_Nil .
  show ?thesis by (intro conjI h1 h2 conjunct1[OF c'] conjunct2[OF c'])
qed

section \<open>Creating a member without name or email\<close>

text \<open>
  C4. \<open>POST /members\<close> with an empty body, on an empty store. The handler has no test
  of \<open>name\<close> and \<open>email\<close>: it looks up the undefined email, finds nobody, builds
  the document and calls \<open>save()\<close>. Whatever the schema validation is, the answer is
  either 500 "Failed to add team member", from the catch-all, or 200 with a member of
  no name and no email stored; it is never a 400.
\<close>

theorem create_member_without_name_and_email:
  "post_members cfg (Some ''admin'') no_fields now empty_db =
     (if validate cfg (new_User no_fields 0 now)
      then (ok (JObj [(''success'', JBool True),
                      (''message'', JStr ''Team member added successfully''),
                      (''member'',
                       JObj [(''_id'', JNum 0), (''role'', JStr ''contributor''),
                             (''githubUsername'', JStr ''''),
                             (''assignedProjects'', JArr []),
                             (''status'', JStr ''active'')])]),
            \<lparr>members = [new_User no_fields 0 now], projects = [],
             calls = [Call_User_findOne None, Call_User_save 0], next_oid = 1\<rparr>)
      else (fail 500 ''Failed to add team member'',
            \<lparr>members = [], projects = [],
             calls = [Call_User_findOne None, Call_User_save 0], next_oid = 1\<rparr>))"
  by (simp add: post_members_def store_defs no_fields_def empty_db_def new_User_def Let_def
      email_matches_def member_json_def obj_def str_def ids_def List.map_filter_def
      js_or_def js_or_arr_def truthy_def)

section \<open>Partial updates\<close>

lemma find_replace_member: "find (\<lambda>x. mid x = mid m) (replace_member m ms) = Some m"
  by (induction ms) auto

lemma find_replace_project: "find (\<lambda>x. pid x = pid p) (replace_project p ps) = Some p"
  by (induction ps) auto

lemma find_mid: "find (\<lambda>m. mid m = i) ms = Some m \<Longrightarrow> mid m = i"
  by (auto simp: find_Some_iff)

lemma find_pid: "find (\<lambda>p. pid p = i) ps = Some p \<Longrightarrow> pid p = i"
  by (auto simp: find_Some_iff)

lemma put_members_id_ok:
  assumes "code (fst (put_members_id cfg r i b d)) = 200"
  shows "\<exists>old. find (\<lambda>m. mid m = i) (members d) = Some old \<and>
           members (snd (put_members_id cfg r i b d)) =
             replace_member (update_member_fields b old) (members d)"
proof (cases "r = Some ''admin''")
  case False
  with assms show ?thesis by (simp add: put_members_id_def forbidden_def fail_def)
next
  case admin: True
  show ?thesis
  proof (cases "find (\<lambda>m. mid m = i) (members d)")
    case None
    with assms admin show ?thesis by (simp add: put_members_id_def store_defs fail_def)
  next
    case (Some old)
    show ?thesis
    proof (cases "email b \<noteq> email old \<and>
                  find (email_matches cfg (email b)) (members d) \<noteq> None")
      case True
      with assms admin Some show ?thesis
        by (auto simp add: put_members_id_def store_defs fail_def)
    next
      case nomatch: False
      show ?thesis
      proof (cases "validate cfg (update_member_fields b old)")
        case True
        with nomatch admin Some show ?thesis
          by (auto simp add: put_members_id_def store_defs Let_def)
      next
        case False
        with assms nomatch admin Some show ?thesis
          by (auto simp add: put_members_id_def store_defs fail_def Let_def)
      qed
    qed
  qed
qed

lemma put_projects_id_ok:
  assumes "code (fst (put_projects_id r i b now d)) = 200"
  shows "\<exists>old. find (\<lambda>p. pid p = i) (projects d) = Some old \<and>
           projects (snd (put_projects_id r i b now d)) =
             replace_project ((update_project_fields b (Project_hydrate old))\<lparr>updatedAt := now\<rparr>)
               (projects d)"
proof (cases "r = Some ''admin''")
  case False
  with assms show ?thesis by (simp add: put_projects_id_def forbidden_def fail_def)
next
  case admin: True
  show ?thesis
  proof (cases "find (\<lambda>p. pid p = i) (projects d)")
    case None
    with assms admin show ?thesis by (simp add: put_projects_id_def store_defs fail_def)
  next
    case (Some old)
    obtain v d2 where vt:
      "verify_team (teamMembers b) (logc (Call_Project_findById i) d) = (v, d2)"
      by (cases "verify_team (teamMembers b) (logc (Call_Project_findById i) d)") blast
    have pr: "projects d2 = projects d"
      using vt by (auto simp: store_defs Let_def split: option.splits if_splits)
    show ?thesis
    proof (cases v)
      case False
      with assms admin Some vt show ?thesis
        by (simp add: put_projects_id_def Project_findById_def fail_def)
    next
      case valid: True
      show ?thesis
      proof (cases "Project_validate
          ((update_project_fields b (Project_hydrate old))\<lparr>updatedAt := now\<rparr>)")
        case True
        with valid admin Some pr vt show ?thesis
          by (simp add: put_projects_id_def Project_findById_def Project_save_def
              populate_def logc_def Let_def)
      next
        case False
        with assms valid admin Some vt show ?thesis
          by (simp add: put_projects_id_def Project_findById_def Project_save_def
              logc_def fail_def Let_def)
      qed
    qed
  qed
qed


text \<open>
  C6. What a successful update stores. For a member: \<open>githubUsername\<close> and
  \<open>assignedProjects\<close> take the value of the body whenever the body has one (an empty
  string, an empty list too) and keep the stored value when the body has none, while
  \<open>name\<close>, \<open>role\<close> and \<open>status\<close> take the value of the body only when it is
  truthy and keep the stored value otherwise. For a project: \<open>description\<close> and
  \<open>teamMembers\<close> follow the first rule, \<open>projectName\<close>, \<open>githubRepo\<close> and
  \<open>status\<close> the second; where the stored project has no \<open>description\<close>, no
  \<open>teamMembers\<close> or no \<open>status\<close> at all, the value kept is the one the document
  was read with, the default of the schema.
\<close>

theorem partial_update_fields:
  "(code (fst (put_members_id cfg userRole i b d)) = 200 \<longrightarrow>
      (\<exists>old new.
         find (\<lambda>m. mid m = i) (members d) = Some old \<and>
         find (\<lambda>m. mid m = i) (members (snd (put_members_id cfg userRole i b d))) = Some new \<and>
         githubUsername new =
           (case githubUsername b of None \<Rightarrow> githubUsername old | Some g \<Rightarrow> Some g) \<and>
         assignedProjects new =
           (case assignedProjects b of None \<Rightarrow> assignedProjects old | Some a \<Rightarrow> Some a) \<and>
         name new = (if truthy (name b) then name b else name old) \<and>
         role new = (if truthy (role b) then role b else role old) \<and>
         status new = (if truthy (status b) then status b else status old))) \<and>
   (code (fst (put_projects_id userRole j pb now d)) = 200 \<longrightarrow>
      (\<exists>old new.
         find (\<lambda>p. pid p = j) (projects d) = Some old \<and>
         find (\<lambda>p. pid p = j) (projects (snd (put_projects_id userRole j pb now d))) =
           Some new \<and>
         description new =
           (case description pb of
              Some s \<Rightarrow> Some s
            | None \<Rightarrow> (case description old of Some s \<Rightarrow> Some s | None \<Rightarrow> Some '''')) \<and>
         teamMembers new =
           (case teamMembers pb of
              Some t \<Rightarrow> Some t
            | None \<Rightarrow> (case teamMembers old of Some t \<Rightarrow> Some t | None \<Rightarrow> Some [])) \<and>
         projectName new = (if truthy (projectName pb) then projectName pb else projectName old) \<and>
         githubRepo new = (if truthy (githubRepo pb) then githubRepo pb else githubRepo old) \<and>
         pstatus new =
           (if truthy (pstatus pb) then pstatus pb
            else (case pstatus old of Some s \<Rightarrow> Some s | None \<Rightarrow> Some ''active''))))"
proof (intro conjI impI)
  assume "code (fst (put_members_id cfg userRole i b d)) = 200"
  then obtain old where old: "find (\<lambda>m. mid m = i) (members d) = Some old"
    and saved: "members (snd (put_members_id cfg userRole i b d)) =
                  replace_member (update_member_fields b old) (members d)"
    using put_members_id_ok by blast
  let ?new = "update_member_fields b old"
  have "mid ?new = i" using find_mid[OF old] by (simp add: update_member_fields_def)
  hence "find (\<lambda>m. mid m = i) (members (snd (put_members_id cfg userRole i b d))) = Some ?new"
    using find_replace_member[of ?new "members d"] saved by simp
  moreover have "githubUsername ?new =
           (case githubUsername b of None \<Rightarrow> githubUsername old | Some g \<Rightarrow> Some g)"
    and "assignedProjects ?new =
           (case assignedProjects b of None \<Rightarrow> assignedProjects old | Some a \<Rightarrow> Some a)"
    and "name ?new = (if truthy (name b) then name b else name old)"
    and "role ?new = (if truthy (role b) then role b else role old)"
    and "status ?new = (if truthy (status b) then status b else status old)"
    by (simp_all add: update_member_fields_def js_or_def split: option.splits)
  ultimately show "\<exists>old new.
         find (\<lambda>m. mid m = i) (members d) = Some old \<and>
         find (\<lambda>m. mid m = i) (members (snd (put_members_id cfg userRole i b d))) = Some new \<and>
         githubUsername new =
           (case githubUsername b of None \<Rightarrow> githubUsername old | Some g \<Rightarrow> Some g) \<and>
         assignedProjects new =
           (case assignedProjects b of None \<Rightarrow> assignedProjects old | Some a \<Rightarrow> Some a) \<and>
         name new = (if truthy (name b) then name b else name old) \<and>
         role new = (if truthy (role b) then role b else role old) \<and>
         status new = (if truthy (status b) then status b else status old)"
    using old by blast
next
  assume "code (fst (put_projects_id userRole j pb now d)) = 200"
  then obtain old where old: "find (\<lambda>p. pid p = j) (projects d) = Some old"
    and saved: "projects (snd (put_projects_id userRole j pb now d)) =
      replace_project ((update_project_fields pb (Project_hydrate old))\<lparr>updatedAt := now\<rparr>)
        (projects d)"
    using put_projects_id_ok by blast
  let ?new = "(update_project_fields pb (Project_hydrate old))\<lparr>updatedAt := now\<rparr>"
  have "pid ?new = j"
    using find_pid[OF old] by (simp add: update_project_fields_def Project_hydrate_def)
  hence "find (\<lambda>p. pid p = j) (projects (snd (put_projects_id userRole j pb now d))) =
           Some ?new"
    using find_replace_project[of ?new "projects d"] saved by simp
  moreover have "description ?new =
           (case description pb of
              Some s \<Rightarrow> Some s
            | None \<Rightarrow> (case description old of Some s \<Rightarrow> Some s | None \<Rightarrow> Some ''''))"
    and "teamMembers ?new =
           (case teamMembers pb of
              Some t \<Rightarrow> Some t
            | None \<Rightarrow> (case teamMembers old of Some t \<Rightarrow> Some t | None \<Rightarrow> Some []))"
    and "projectName ?new = (if truthy (projectName pb) then projectName pb else projectName old)"
    and "githubRepo ?new = (if truthy (githubRepo pb) then githubRepo pb else githubRepo old)"
    and "pstatus ?new =
           (if truthy (pstatus pb) then pstatus pb
            else (case pstatus old of Some s \<Rightarrow> Some s | None \<Rightarrow> Some ''active''))"
    by (simp_all add: update_project_fields_def Project_hydrate_def split: option.splits)
  ultimately show "\<exists>old new.
         find (\<lambda>p. pid p = j) (projects d) = Some old \<and>
         find (\<lambda>p. pid p = j) (projects (snd (put_projects_id userRole j pb now d))) =
           Some new \<and>
         description new =
           (case description pb of
              Some s \<Rightarrow> Some s
            | None \<Rightarrow> (case description old of Some s \<Rightarrow> Some s | None \<Rightarrow> Some '''')) \<and>
         teamMembers new =
           (case teamMembers pb of
              Some t \<Rightarrow> Some t
            | None \<Rightarrow> (case teamMembers old of Some t \<Rightarrow> Some t | None \<Rightarrow> Some [])) \<and>
         projectName new = (if truthy (projectName pb) then projectName pb else projectName old) \<and>
         githubRepo new = (if truthy (githubRepo pb) then githubRepo pb else githubRepo old) \<and>
         pstatus new =
           (if truthy (pstatus pb) then pstatus pb
            else (case pstatus old of Some s \<Rightarrow> Some s | None \<Rightarrow> Some ''active''))"
    using old by blast
qed

text \<open>
  An update of Alice and one of the website project with blank bodies: the empty
  GitHub user name, the empty lists and the empty description are stored, the names, the
  role, the repository and both statuses stay. And an update of the repository of a
  project stored with its two required fields only: the three defaults are stored with
  the new repository.
\<close>

theorem partial_update_fields_witness:
  "code (fst (put_members_id any_config (Some ''admin'') 0 blank_fields alice_db)) = 200 \<and>
   (\<exists>new.
      find (\<lambda>m. mid m = 0)
        (members (snd (put_members_id any_config (Some ''admin'') 0 blank_fields alice_db))) =
        Some new \<and>
      githubUsername new = Some '''' \<and> assignedProjects new = Some [] \<and>
      name new = Some ''Alice'' \<and> role new = Some ''contributor'' \<and>
      status new = Some ''active'') \<and>
   code (fst (put_projects_id (Some ''admin'') 2 blank_project_fields 30 alice_db)) = 200 \<and>
   (\<exists>new.
      find (\<lambda>p. pid p = 2)
        (projects (snd (put_projects_id (Some ''admin'') 2 blank_project_fields 30 alice_db))) =
        Some new \<and>
      description new = Some '''' \<and> teamMembers new = Some [] \<and>
      projectName new = Some ''Website'' \<and> githubRepo new = Some ''org/website'' \<and>
      pstatus new = Some ''active'') \<and>
   code (fst (put_projects_id (Some ''admin'') 5 repo_only 30 legacy_db)) = 200 \<and>
   (\<exists>new.
      find (\<lambda>p. pid p = 5)
        (projects (snd (put_projects_id (Some ''admin'') 5 repo_only 30 legacy_db))) =
        Some new \<and>
      description new = Some '''' \<and> teamMembers new = Some [] \<and>
      projectName new = Some ''Legacy'' \<and> githubRepo new = Some ''org/new'' \<and>
      pstatus new = Some ''active'')"
proof -
  have h1: "code (fst (put_members_id any_config (Some ''admin'') 0 blank_fields alice_db)) = 200"
    by (simp add: put_members_id_def store_defs sample_defs blank_fields_def
        email_matches_def ok_def Let_def)
  have h2: "code (fst (put_projects_id (Some ''admin'') 2 blank_project_fields 30 alice_db)) = 200"
    by (simp add: put_projects_id_def store_defs sample_defs blank_project_fields_def
        update_project_fields_def Project_hydrate_def Project_validate_def truthy_def
        ok_def Let_def)
  have h3: "code (fst (put_projects_id (Some ''admin'') 5 repo_only 30 legacy_db)) = 200"
    by (simp add: put_projects_id_def store_defs sample_defs legacy_db_def legacy_def
        repo_only_def update_project_fields_def Project_hydrate_def Project_validate_def
        truthy_def ok_def Let_def)
  have a: "find (\<lambda>m. mid m = 0) (members alice_db) = Some alice"
    and w: "find (\<lambda>p. pid p = 2) (projects alice_db) = Some website"
    and l: "find (\<lambda>p. pid p = 5) (projects legacy_db) = Some legacy"
    by (simp_all add: sample_defs legacy_db_def legacy_def)
  note T = partial_update_fields[of any_config "Some ''admin''" 0 blank_fields alice_db
      2 blank_project_fields 30]
  note L = partial_update_fields[of any_config "Some ''admin''" 0 blank_fields legacy_db
      5 repo_only 30]
  from T h1 obtain new where n:
    "find (\<lambda>m. mid m = 0)
       (members (snd (put_members_id any_config (Some ''admin'') 0 blank_fields alice_db))) =
       Some new"
    "githubUsername new =
       (case githubUsername blank_fields of None \<Rightarrow> githubUsername alice | Some g \<Rightarrow> Some g)"
    "assignedProjects new =
       (case assignedProjects blank_fields of None \<Rightarrow> assignedProjects alice
        | Some a \<Rightarrow> Some a)"
    "name new = (if truthy (name blank_fields) then name blank_fields else name alice)"
    "role new = (if truthy (role blank_fields) then role blank_fields else role alice)"
    "status new = (if truthy (status blank_fields) then status blank_fields else status alice)"
    unfolding a by auto
  from T h2 obtain pnew where p:
    "find (\<lambda>p. pid p = 2)
       (projects (snd (put_projects_id (Some ''admin'') 2 blank_project_fields 30 alice_db))) =
       Some pnew"
    "description pnew =
       (case description blank_project_fields of
          Some s \<Rightarrow> Some s
        | None \<Rightarrow> (case description website of Some s \<Rightarrow> Some s | None \<Rightarrow> Some ''''))"
    "teamMembers pnew =
       (case teamMembers blank_project_fields of
          Some t \<Rightarrow> Some t
        | None \<Rightarrow> (case teamMembers website of Some t \<Rightarrow> Some t | None \<Rightarrow> Some []))"
    "projectName pnew = (if truthy (projectName blank_project_fields)
       then projectName blank_project_fields else projectName website)"
    "githubRepo pnew = (if truthy (githubRepo blank_project_fields)
       then githubRepo blank_project_fields else githubRepo website)"
    "pstatus pnew = (if truthy (pstatus blank_project_fields)
       then pstatus blank_project_fields
       else (case pstatus website of Some s \<Rightarrow> Some s | None \<Rightarrow> Some ''active''))"
    unfolding w by auto
  from L h3 obtain lnew where q:
    "find (\<lambda>p. pid p = 5)
       (projects (snd (put_projects_id (Some ''admin'') 5 repo_only 30 legacy_db))) =
       Some lnew"
    "description lnew =
       (case description repo_only of
          Some s \<Rightarrow> Some s
        | None \<Rightarrow> (case description legacy of Some s \<Rightarrow> Some s | None \<Rightarrow> Some ''''))"
    "teamMembers lnew =
       (case teamMembers repo_only of
          Some t \<Rightarrow> Some t
        | None \<Rightarrow> (case teamMembers legacy of Some t \<Rightarrow> Some t | None \<Rightarrow> Some []))"
    "projectName lnew = (if truthy (projectName repo_only)
       then projectName repo_only else projectName legacy)"
    "githubRepo lnew = (if truthy (githubRepo repo_only)
       then githubRepo repo_only else githubRepo legacy)"
    "pstatus lnew = (if truthy (pstatus repo_only)
       then pstatus repo_only
       else (case pstatus legacy of Some s \<Rightarrow> Some s | None \<Rightarrow> Some ''active''))"
    unfolding l by auto
  have m: "githubUsername new = Some '''' \<and> assignedProjects new = Some [] \<and>
      name new = Some ''Alice'' \<and> role new = Some ''contributor'' \<and>
      status new = Some ''active''"
    using n(2-6) by (simp add: blank_fields_def alice_def truthy_def)
  have pq: "description pnew = Some '''' \<and> teamMembers pnew = Some [] \<and>
      projectName pnew = Some ''Website'' \<and> githubRepo pnew = Some ''org/website'' \<and>
      pstatus pnew = Some ''active''"
    using p(2-6) by (simp add: blank_project_fields_def website_def truthy_def)
  have lq: "description lnew = Some '''' \<and> teamMembers lnew = Some [] \<and>
      projectName lnew = Some ''Legacy'' \<and> githubRepo lnew = Some ''org/new'' \<and>
      pstatus lnew = Some ''active''"
    using q(2-6) by (simp add: repo_only_def no_project_fields_def legacy_def truthy_def)
  have e1: "\<exists>new.
      find (\<lambda>m. mid m = 0)
        (members (snd (put_members_id any_config (Some ''admin'') 0 blank_fields alice_db))) =
        Some new \<and>
      githubUsername new = Some '''' \<and> assignedProjects new = Some [] \<and>
      name new = Some ''Alice'' \<and> role new = Some ''contributor'' \<and>
      status new = Some ''active''"
    using n(1) m by blast
  have e2: "\<exists>new.
      find (\<lambda>p. pid p = 2)
        (projects (snd (put_projects_id (Some ''admin'') 2 blank_project_fields 30 alice_db))) =
        Some new \<and>
      description new = Some '''' \<and> teamMembers new = Some [] \<and>
      projectName new = Some ''Website'' \<and> githubRepo new = Some ''org/website'' \<and>
      pstatus new = Some ''active''"
    using p(1) pq by blast
  have e3: "\<exists>new.
      find (\<lambda>p. pid p = 5)
        (projects (snd (put_projects_id (Some ''admin'') 5 repo_only 30 legacy_db))) =
        Some new \<and>
      description new = Some '''' \<and> teamMembers new = Some [] \<and>
      projectName new = Some ''Legacy'' \<and> githubRepo new = Some ''org/new'' \<and>
      pstatus new = Some ''active''"
    using q(1) lq by blast
  show ?thesis by (intro conjI h1 e1 h2 e2 h3 e3)
qed

section \<open>Response bodies\<close>

lemma wrapped_fail: "c \<noteq> 200 \<Longrightarrow> wrapped (fail c msg)"
  by (simp add: wrapped_def fail_def)

lemma wrapped_ok: "wrapped (ok (obj ((''success'', Some (JBool True)) # kvs)))"
  by (simp add: wrapped_def ok_def obj_def List.map_filter_def)

lemmas wrapped_simps = wrapped_fail wrapped_ok forbidden_def

lemma wrapped_team_router: "wrapped (fst (team_router cfg userRole now treq d))"
proof (cases treq)
  case GET_members
  then show ?thesis
    by (simp add: get_members_def wrapped_simps split: prod.splits)
next
  case (POST_members b)
  then show ?thesis
    by (simp add: post_members_def wrapped_simps Let_def split: prod.splits sum.splits)
next
  case (PUT_members_id i b)
  then show ?thesis
    by (simp add: put_members_id_def wrapped_simps Let_def
        split: prod.splits sum.splits option.splits)
next
  case (DELETE_members_id i)
  then show ?thesis
    by (simp add: delete_members_id_def wrapped_simps split: prod.splits option.splits)
next
  case (GET_members_id i)
  then show ?thesis
    by (simp add: get_members_id_def wrapped_simps split: prod.splits option.splits)
qed

lemma wrapped_projects_router: "wrapped (fst (projects_router userRole now preq d))"
proof (cases preq)
  case GET_projects
  then show ?thesis
    by (simp add: get_projects_def wrapped_simps split: prod.splits)
next
  case (POST_projects b)
  then show ?thesis
    by (simp add: post_projects_def wrapped_simps Let_def split: prod.splits sum.splits)
next
  case (PUT_projects_id i b)
  then show ?thesis
    by (simp add: put_projects_id_def wrapped_simps Let_def
        split: prod.splits sum.splits option.splits)
next
  case (DELETE_projects_id i)
  then show ?thesis
    by (simp add: delete_projects_id_def wrapped_simps split: prod.splits option.splits)
next
  case (GET_projects_id i)
  then show ?thesis
    by (simp add: get_projects_id_def wrapped_simps split: prod.splits option.splits)
qed

text \<open>
  C7, as stated, fails at the recommendations route: its body is the bare array, not an
  object with \<open>success: true\<close>.
\<close>

theorem recommendations_not_wrapped:
  "\<not> wrapped get_recommendations"
  by (simp add: wrapped_def get_recommendations_def ok_def)

text \<open>
  C7, amended. Every response of the member routes and of the project routes has one of
  the two shapes: with status 200 an object whose \<open>success\<close> is true, otherwise the
  object \<open>{success: false, error: <message>}\<close>. The recommendations route answers 200
  with the array of its four records, unwrapped.
\<close>

theorem member_and_project_responses_wrapped:
  "wrapped (fst (team_router cfg userRole now treq d)) \<and>
   wrapped (fst (projects_router userRole now preq d)) \<and>
   code get_recommendations = 200 \<and>
   body get_recommendations = JArr recommendations \<and>
   length recommendations = 4"
  by (simp add: wrapped_team_router wrapped_projects_router get_recommendations_def ok_def
      recommendations_def)

text \<open>Two of the shapes met: the list of members, and a project that is not there.\<close>

theorem member_and_project_responses_wrapped_witness:
  "code (fst (team_router any_config (Some ''admin'') 20 GET_members alice_db)) = 200 \<and>
   is_success_body (body (fst (team_router any_config (Some ''admin'') 20 GET_members alice_db))) \<and>
   code (fst (projects_router (Some ''admin'') 20 (GET_projects_id 9) alice_db)) = 404 \<and>
   is_failure_body (body (fst (projects_router (Some ''admin'') 20 (GET_projects_id 9) alice_db)))"
proof -
  have c1: "code (fst (team_router any_config (Some ''admin'') 20 GET_members alice_db)) = 200"
    by (simp add: get_members_def ok_def split: prod.splits)
  have c2: "code (fst (projects_router (Some ''admin'') 20 (GET_projects_id 9) alice_db)) = 404"
    by (simp add: get_projects_id_def store_defs sample_defs fail_def)
  note T = member_and_project_responses_wrapped[of any_config "Some ''admin''" 20 GET_members
      alice_db "GET_projects_id 9"]
  have "wrapped (fst (team_router any_config (Some ''admin'') 20 GET_members alice_db))"
    using T by (rule conjunct1)
  hence s1: "is_success_body
      (body (fst (team_router any_config (Some ''admin'') 20 GET_members alice_db)))"
    unfolding wrapped_def using c1 by simp
  have "wrapped (fst (projects_router (Some ''admin'') 20 (GET_projects_id 9) alice_db))"
    using T by blast
  hence s2: "is_failure_body
      (body (fst (projects_router (Some ''admin'') 20 (GET_projects_id 9) alice_db)))"
    unfolding wrapped_def using c2 by simp
  show ?thesis by (intro conjI c1 c2 s1 s2)
qed

section \<open>The email lookup of an update\<close>

text \<open>
  C8. When the member exists and the email of the body differs from the stored one, the
  body having no email included, the next call on the store after \<open>findById\<close> is
  \<open>findOne\<close> with the email of the body as filter, undefined when the body has none;
  and when a document matches that filter the answer is 400 "Email already in use by
  another user", nothing being saved.
\<close>

theorem update_looks_up_differing_email:
  assumes "find (\<lambda>m. mid m = i) (members d) = Some m" "email b \<noteq> email m"
  shows "(\<exists>rest. calls (snd (put_members_id cfg (Some ''admin'') i b d)) =
            calls d @ [Call_User_findById i, Call_User_findOne (email b)] @ rest) \<and>
         ((\<exists>x\<in>set (members d). email_matches cfg (email b) x) \<longrightarrow>
            put_members_id cfg (Some ''admin'') i b d =
              (fail 400 ''Email already in use by another user'',
               d\<lparr>calls := calls d @ [Call_User_findById i, Call_User_findOne (email b)]\<rparr>))"
proof (cases "find (email_matches cfg (email b)) (members d)")
  case (Some x)
  hence r: "put_members_id cfg (Some ''admin'') i b d =
      (fail 400 ''Email already in use by another user'',
       d\<lparr>calls := calls d @ [Call_User_findById i, Call_User_findOne (email b)]\<rparr>)"
    using assms by (simp add: put_members_id_def store_defs)
  show ?thesis by (simp add: r)
next
  case None
  hence no: "\<not> (\<exists>x\<in>set (members d). email_matches cfg (email b) x)"
    by (simp add: find_None_iff)
  have "calls (snd (put_members_id cfg (Some ''admin'') i b d)) =
          calls d @ [Call_User_findById i, Call_User_findOne (email b)] @ [Call_User_save i]"
    using assms None find_mid[OF assms(1)]
    by (simp add: put_members_id_def store_defs Let_def)
  thus ?thesis using no by blast
qed

text \<open>Alice's status update, with Bob in the store: the lookup of the undefined email
  is made, finds Bob, and the update is refused.\<close>

theorem update_looks_up_differing_email_witness:
  "find (\<lambda>m. mid m = 0) (members alice_bob_db) = Some alice \<and>
   email status_inactive = None \<and> email alice = Some ''alice@example.org'' \<and>
   email_matches any_config None bob \<and>
   (\<exists>rest. calls (snd (put_members_id any_config (Some ''admin'') 0 status_inactive
                        alice_bob_db)) =
      [Call_User_findById 0, Call_User_findOne None] @ rest) \<and>
   put_members_id any_config (Some ''admin'') 0 status_inactive alice_bob_db =
     (fail 400 ''Email already in use by another user'',
      alice_bob_db\<lparr>calls := [Call_User_findById 0, Call_User_findOne None]\<rparr>)"
proof -
  have h1: "find (\<lambda>m. mid m = 0) (members alice_bob_db) = Some alice"
    by (simp add: sample_defs)
  have e1: "email status_inactive = None" by (simp add: status_inactive_def no_fields_def)
  have e2: "email alice = Some ''alice@example.org''" by (simp add: alice_def)
  have h2: "email status_inactive \<noteq> email alice" by (simp add: e1 e2)
  have h3: "email_matches any_config None bob"
    by (simp add: email_matches_def bob_def)
  have h4: "\<exists>x\<in>set (members alice_bob_db). email_matches any_config (email status_inactive) x"
    using h3 by (simp add: e1 alice_bob_db_def)
  have c: "calls alice_bob_db = []" by (simp add: alice_bob_db_def)
  note T = update_looks_up_differing_email[OF h1 h2, of any_config]
  have t1: "\<exists>rest. calls (snd (put_members_id any_config (Some ''admin'') 0 status_inactive
                        alice_bob_db)) =
      [Call_User_findById 0, Call_User_findOne None] @ rest"
    using conjunct1[OF T] unfolding c e1 append_Nil .
  have t2: "put_members_id any_config (Some ''admin'') 0 status_inactive alice_bob_db =
     (fail 400 ''Email already in use by another user'',
      alice_bob_db\<lparr>calls := [Call_User_findById 0, Call_User_findOne None]\<rparr>)"
    using mp[OF conjunct2[OF T] h4] unfolding c e1 append_Nil .
  show ?thesis by (intro conjI h1 e1 e2 h3 t1 t2)
qed

section \<open>What a creation stores\<close>

lemma post_members_saved:
  assumes "find (email_matches cfg (email b)) (members d) = None"
    "validate cfg (new_User b (next_oid d) now)"
  shows "code (fst (post_members cfg (Some ''admin'') b now d)) = 200"
    and "find (\<lambda>m. mid m = next_oid d)
           (members (snd (post_members cfg (Some ''admin'') b now d))) =
         Some (new_User b (next_oid d) now)"
proof -
  let ?new = "new_User b (next_oid d) now"
  have m: "mid ?new = next_oid d" by (simp add: new_User_def)
  have r: "post_members cfg (Some ''admin'') b now d =
    (ok (obj [(''success'', Some (JBool True)),
              (''message'', Some (JStr ''Team member added successfully'')),
              (''member'', Some (member_json ?new))]),
     d\<lparr>calls := calls d @ [Call_User_findOne (email b), Call_User_save (next_oid d)],
       next_oid := Suc (next_oid d),
       members := replace_member ?new (members d)\<rparr>)"
    using assms by (simp add: post_members_def store_defs Let_def m)
  show "code (fst (post_members cfg (Some ''admin'') b now d)) = 200"
    by (simp add: r ok_def)
  show "find (\<lambda>m. mid m = next_oid d)
           (members (snd (post_members cfg (Some ''admin'') b now d))) = Some ?new"
    using find_replace_member[of ?new "members d"] by (simp add: r m)
qed

text \<open>
  C9. When no member matches the email and the schema accepts the document,
  \<open>POST /members\<close> answers 200 and stores a member whose \<open>role\<close> and \<open>status\<close>
  are those of the body when they are truthy and the defaults \<open>contributor\<close> and
  \<open>active\<close> otherwise, and whose \<open>assignedProjects\<close> is the list of the body when
  there is one and the empty list otherwise. A body with the role \<open>admin\<close> makes an
  admin.
\<close>

theorem create_member_stores_supplied_fields:
  assumes "find (email_matches cfg (email b)) (members d) = None"
    "validate cfg (new_User b (next_oid d) now)"
  shows "code (fst (post_members cfg (Some ''admin'') b now d)) = 200 \<and>
         (\<exists>new.
            find (\<lambda>m. mid m = next_oid d)
              (members (snd (post_members cfg (Some ''admin'') b now d))) = Some new \<and>
            role new = (if truthy (role b) then role b else Some ''contributor'') \<and>
            status new = (if truthy (status b) then status b else Some ''active'') \<and>
            assignedProjects new =
              (case assignedProjects b of None \<Rightarrow> Some [] | Some a \<Rightarrow> Some a) \<and>
            (role b = Some ''admin'' \<longrightarrow> role new = Some ''admin''))"
proof -
  let ?new = "new_User b (next_oid d) now"
  have "role ?new = (if truthy (role b) then role b else Some ''contributor'')"
    and "status ?new = (if truthy (status b) then status b else Some ''active'')"
    and "assignedProjects ?new =
           (case assignedProjects b of None \<Rightarrow> Some [] | Some a \<Rightarrow> Some a)"
    and "role b = Some ''admin'' \<longrightarrow> role ?new = Some ''admin''"
    by (simp_all add: new_User_def js_or_def js_or_arr_def truthy_def)
  with post_members_saved[OF assms] show ?thesis by blast
qed

text \<open>Carol asks for the admin role and gets it.\<close>

theorem create_member_stores_supplied_fields_witness:
  "find (email_matches any_config (email carol_fields)) (members alice_db) = None \<and>
   validate any_config (new_User carol_fields (next_oid alice_db) 20) \<and>
   code (fst (post_members any_config (Some ''admin'') carol_fields 20 alice_db)) = 200 \<and>
   (\<exists>new.
      find (\<lambda>m. mid m = 3)
        (members (snd (post_members any_config (Some ''admin'') carol_fields 20 alice_db))) =
        Some new \<and>
      role new = Some ''admin'' \<and> status new = Some ''inactive'' \<and>
      assignedProjects new = Some [42])"
proof -
  have h1: "find (email_matches any_config (email carol_fields)) (members alice_db) = None"
    by (simp add: carol_fields_def sample_defs email_matches_def)
  have h2: "validate any_config (new_User carol_fields (next_oid alice_db) 20)"
    by (simp add: any_config_def)
  have n: "next_oid alice_db = 3" by (simp add: alice_db_def)
  note T = create_member_stores_supplied_fields[OF h1 h2]
  from T obtain new where new:
    "find (\<lambda>m. mid m = next_oid alice_db)
       (members (snd (post_members any_config (Some ''admin'') carol_fields 20 alice_db))) =
       Some new"
    "role new = (if truthy (role carol_fields) then role carol_fields else Some ''contributor'')"
    "status new = (if truthy (status carol_fields) then status carol_fields else Some ''active'')"
    "assignedProjects new =
       (case assignedProjects carol_fields of None \<Rightarrow> Some [] | Some a \<Rightarrow> Some a)"
    by blast
  have f: "role new = Some ''admin'' \<and> status new = Some ''inactive'' \<and>
      assignedProjects new = Some [42]"
    using new(2-4) by (simp add: carol_fields_def truthy_def)
  have c: "code (fst (post_members any_config (Some ''admin'') carol_fields 20 alice_db)) = 200"
    using T by (rule conjunct1)
  show ?thesis using h1 h2 c new(1) f unfolding n by blast
qed

section \<open>Assigned projects are not checked\<close>

lemma post_members_ignores_projects:
  "fst (post_members cfg r b now (d\<lparr>projects := ps\<rparr>)) = fst (post_members cfg r b now d) \<and>
   members (snd (post_members cfg r b now (d\<lparr>projects := ps\<rparr>))) =
     members (snd (post_members cfg r b now d))"
  by (simp add: post_members_def store_defs Let_def split: prod.splits sum.splits)

lemma put_members_id_ignores_projects:
  "fst (put_members_id cfg r i b (d\<lparr>projects := ps\<rparr>)) = fst (put_members_id cfg r i b d) \<and>
   members (snd (put_members_id cfg r i b (d\<lparr>projects := ps\<rparr>))) =
     members (snd (put_members_id cfg r i b d))"
  by (simp add: put_members_id_def store_defs Let_def split: prod.splits sum.splits option.splits)

lemma put_members_id_saved:
  assumes "code (fst (put_members_id cfg r i b d)) = 200"
  shows "\<exists>old. find (\<lambda>m. mid m = i) (members d) = Some old \<and>
           find (\<lambda>m. mid m = i) (members (snd (put_members_id cfg r i b d))) =
             Some (update_member_fields b old)"
proof -
  from put_members_id_ok[OF assms] obtain old where
    old: "find (\<lambda>m. mid m = i) (members d) = Some old"
    and saved: "members (snd (put_members_id cfg r i b d)) =
                  replace_member (update_member_fields b old) (members d)"
    by blast
  have "mid (update_member_fields b old) = i" using find_mid[OF old] by simp
  hence "find (\<lambda>m. mid m = i) (members (snd (put_members_id cfg r i b d))) =
           Some (update_member_fields b old)"
    using find_replace_member[of "update_member_fields b old" "members d"] saved by simp
  with old show ?thesis by blast
qed

text \<open>
  C10. Neither member handler looks at the Project collection: the answer and the
  members left by \<open>POST /members\<close> and by \<open>PUT /members/:id\<close> are the same whatever
  projects the store holds. A creation that is saved and an update that succeeds store
  the \<open>assignedProjects\<close> list of the body as it is.
\<close>

theorem assigned_projects_not_validated:
  "(fst (post_members cfg r b now (d\<lparr>projects := ps\<rparr>)) = fst (post_members cfg r b now d) \<and>
    members (snd (post_members cfg r b now (d\<lparr>projects := ps\<rparr>))) =
      members (snd (post_members cfg r b now d))) \<and>
   (fst (put_members_id cfg r i b (d\<lparr>projects := ps\<rparr>)) = fst (put_members_id cfg r i b d) \<and>
    members (snd (put_members_id cfg r i b (d\<lparr>projects := ps\<rparr>))) =
      members (snd (put_members_id cfg r i b d))) \<and>
   (assignedProjects b = Some ap \<and>
    find (email_matches cfg (email b)) (members d) = None \<and>
    validate cfg (new_User b (next_oid d) now) \<longrightarrow>
      code (fst (post_members cfg (Some ''admin'') b now d)) = 200 \<and>
      (\<exists>new. find (\<lambda>m. mid m = next_oid d)
                (members (snd (post_members cfg (Some ''admin'') b now d))) = Some new \<and>
              assignedProjects new = Some ap)) \<and>
   (assignedProjects b = Some ap \<and> code (fst (put_members_id cfg r i b d)) = 200 \<longrightarrow>
      (\<exists>new. find (\<lambda>m. mid m = i) (members (snd (put_members_id cfg r i b d))) = Some new \<and>
              assignedProjects new = Some ap))"
proof (intro conjI impI)
  show "fst (post_members cfg r b now (d\<lparr>projects := ps\<rparr>)) = fst (post_members cfg r b now d)"
    and "members (snd (post_members cfg r b now (d\<lparr>projects := ps\<rparr>))) =
      members (snd (post_members cfg r b now d))"
    using post_members_ignores_projects[of cfg r b now ps d] by simp_all
  show "fst (put_members_id cfg r i b (d\<lparr>projects := ps\<rparr>)) = fst (put_members_id cfg r i b d)"
    and "members (snd (put_members_id cfg r i b (d\<lparr>projects := ps\<rparr>))) =
      members (snd (put_members_id cfg r i b d))"
    using put_members_id_ignores_projects[of cfg r i b ps d] by simp_all
next
  assume h: "assignedProjects b = Some ap \<and>
    find (email_matches cfg (email b)) (members d) = None \<and>
    validate cfg (new_User b (next_oid d) now)"
  thus "code (fst (post_members cfg (Some ''admin'') b now d)) = 200"
    using post_members_saved(1)[of cfg b d now] by simp
  have "assignedProjects (new_User b (next_oid d) now) = Some ap"
    using h by (simp add: new_User_def js_or_arr_def)
  thus "\<exists>new. find (\<lambda>m. mid m = next_oid d)
                (members (snd (post_members cfg (Some ''admin'') b now d))) = Some new \<and>
              assignedProjects new = Some ap"
    using h post_members_saved(2)[of cfg b d now] by simp
next
  assume h: "assignedProjects b = Some ap \<and> code (fst (put_members_id cfg r i b d)) = 200"
  then obtain old where
    "find (\<lambda>m. mid m = i) (members (snd (put_members_id cfg r i b d))) =
       Some (update_member_fields b old)"
    using put_members_id_saved[of cfg r i b d] by blast
  moreover have "assignedProjects (update_member_fields b old) = Some ap"
    using h by (simp add: update_member_fields_def)
  ultimately show "\<exists>new. find (\<lambda>m. mid m = i)
        (members (snd (put_members_id cfg r i b d))) = Some new \<and>
        assignedProjects new = Some ap"
    by blast
qed

text \<open>Project 42 does not exist; Carol is created with it, and Alice is updated to it.\<close>

theorem assigned_projects_not_validated_witness:
  "42 \<notin> pid ` set (projects alice_db) \<and>
   assignedProjects carol_fields = Some [42] \<and>
   code (fst (post_members any_config (Some ''admin'') carol_fields 20 alice_db)) = 200 \<and>
   (\<exists>new. find (\<lambda>m. mid m = 3)
             (members (snd (post_members any_config (Some ''admin'') carol_fields 20 alice_db))) =
             Some new \<and>
           assignedProjects new = Some [42]) \<and>
   code (fst (put_members_id any_config (Some ''admin'') 0 carol_fields alice_db)) = 200 \<and>
   (\<exists>new. find (\<lambda>m. mid m = 0)
             (members (snd (put_members_id any_config (Some ''admin'') 0 carol_fields alice_db))) =
             Some new \<and>
           assignedProjects new = Some [42])"
proof -
  have h0: "42 \<notin> pid ` set (projects alice_db)" by (simp add: sample_defs)
  have h1: "assignedProjects carol_fields = Some [42]" by (simp add: carol_fields_def)
  have h2: "find (email_matches any_config (email carol_fields)) (members alice_db) = None"
    by (simp add: carol_fields_def sample_defs email_matches_def)
  have h3: "validate any_config (new_User carol_fields (next_oid alice_db) 20)"
    by (simp add: any_config_def)
  have h4: "code (fst (put_members_id any_config (Some ''admin'') 0 carol_fields alice_db)) = 200"
    by (simp add: put_members_id_def store_defs sample_defs carol_fields_def
        email_matches_def ok_def Let_def)
  have n: "next_oid alice_db = 3" by (simp add: alice_db_def)
  note T = assigned_projects_not_validated[of any_config "Some ''admin''" carol_fields 20
      "[]" alice_db 0 "[42]"]
  have c1: "code (fst (post_members any_config (Some ''admin'') carol_fields 20 alice_db)) = 200"
    and c2: "\<exists>new. find (\<lambda>m. mid m = next_oid alice_db)
             (members (snd (post_members any_config (Some ''admin'') carol_fields 20 alice_db))) =
             Some new \<and> assignedProjects new = Some [42]"
    and c3: "\<exists>new. find (\<lambda>m. mid m = 0)
             (members (snd (put_members_id any_config (Some ''admin'') 0 carol_fields alice_db))) =
             Some new \<and> assignedProjects new = Some [42]"
    using T h1 h2 h3 h4 by blast+
  show ?thesis using h0 h1 h4 c1 c2 c3 unfolding n by blast
qed

section \<open>Updating the status only\<close>

text \<open>
  When no document matches the undefined email (or the member has no email itself) and
  the schema accepts the document, the status-only update does what is expected of it:
  200, the status stored, every other field as before.
\<close>

lemma update_status_only_when_no_match:
  assumes "find (\<lambda>m. mid m = i) (members d) = Some m"
    "email m = None \<or> find (email_matches cfg None) (members d) = None"
    "validate cfg (m\<lparr>status := Some ''inactive''\<rparr>)"
  shows "code (fst (put_members_id cfg (Some ''admin'') i status_inactive d)) = 200 \<and>
         find (\<lambda>m. mid m = i)
           (members (snd (put_members_id cfg (Some ''admin'') i status_inactive d))) =
           Some (m\<lparr>status := Some ''inactive''\<rparr>)"
proof -
  let ?new = "m\<lparr>status := Some ''inactive''\<rparr>"
  have u: "update_member_fields status_inactive m = ?new"
    by (simp add: update_member_fields_def status_inactive_def no_fields_def js_or_def
        truthy_def)
  have e: "email status_inactive = None" by (simp add: status_inactive_def no_fields_def)
  have i: "mid ?new = i" using find_mid[OF assms(1)] by simp
  have r: "members (snd (put_members_id cfg (Some ''admin'') i status_inactive d)) =
             replace_member ?new (members d) \<and>
           code (fst (put_members_id cfg (Some ''admin'') i status_inactive d)) = 200"
    using assms u e i
    by (auto simp add: put_members_id_def store_defs ok_def Let_def)
  show ?thesis using r find_replace_member[of ?new "members d"] i by simp
qed

text \<open>
  Every member document in the store has passed the schema validation: \<open>save()\<close> is
  the only way a handler writes one. The routers keep it so, whatever the validation.
\<close>

lemma post_members_keeps_valid:
  assumes "list_all (validate cfg) (members d)"
  shows "list_all (validate cfg) (members (snd (post_members cfg r b now d)))"
proof (cases "validate cfg (new_User b (next_oid d) now)")
  case True
  have "set (members (snd (post_members cfg r b now d))) \<subseteq>
          insert (new_User b (next_oid d) now) (set (members d))"
    using members_post_members[of cfg r b now d]
      set_replace_member[of "new_User b (next_oid d) now" "members d"] by auto
  with assms True show ?thesis by (auto simp: list_all_iff)
next
  case False
  hence "members (snd (post_members cfg r b now d)) = members d"
    by (simp add: post_members_def store_defs Let_def split: prod.splits)
  with assms show ?thesis by simp
qed

lemma put_members_id_keeps_valid:
  assumes "list_all (validate cfg) (members d)"
  shows "list_all (validate cfg) (members (snd (put_members_id cfg r i b d)))"
proof (cases "code (fst (put_members_id cfg r i b d)) = 200")
  case True
  from put_members_id_ok[OF True] obtain old where
    old: "find (\<lambda>m. mid m = i) (members d) = Some old"
    and saved: "members (snd (put_members_id cfg r i b d)) =
                  replace_member (update_member_fields b old) (members d)"
    by blast
  have "validate cfg (update_member_fields b old)"
  proof (rule ccontr)
    assume "\<not> validate cfg (update_member_fields b old)"
    hence "code (fst (put_members_id cfg r i b d)) \<noteq> 200"
      using old
      by (simp add: put_members_id_def store_defs forbidden_def fail_def Let_def
          split: prod.splits)
    with True show False by simp
  qed
  moreover have "set (members (snd (put_members_id cfg r i b d))) \<subseteq>
          insert (update_member_fields b old) (set (members d))"
    using saved set_replace_member[of "update_member_fields b old" "members d"] by simp
  ultimately show ?thesis using assms by (auto simp: list_all_iff)
next
  case False
  have "members (snd (put_members_id cfg r i b d)) = members d"
  proof (rule ccontr)
    assume "members (snd (put_members_id cfg r i b d)) \<noteq> members d"
    hence "code (fst (put_members_id cfg r i b d)) = 200"
      by (auto simp add: put_members_id_def store_defs ok_def Let_def
          split: prod.splits sum.splits option.splits if_splits)
    with False show False by simp
  qed
  with assms show ?thesis by simp
qed

lemma routers_keep_valid:
  assumes "list_all (validate cfg) (members d)"
  shows "list_all (validate cfg) (members (snd (team_router cfg r now treq d))) \<and>
         list_all (validate cfg) (members (snd (projects_router r now preq d)))"
proof -
  have "list_all (validate cfg) (members (snd (team_router cfg r now treq d)))"
  proof (cases treq)
    case GET_members
    with assms show ?thesis by (simp add: members_get_members)
  next
    case (POST_members b)
    with assms show ?thesis by (simp add: post_members_keeps_valid)
  next
    case (PUT_members_id i b)
    with assms show ?thesis by (simp add: put_members_id_keeps_valid)
  next
    case (DELETE_members_id i)
    have "set (members (snd (delete_members_id r i d))) \<subseteq> set (members d)"
      using members_delete_members_id[of r i d] set_delete_member_doc[of i "members d"]
      by auto
    with assms DELETE_members_id show ?thesis by (auto simp: list_all_iff)
  next
    case (GET_members_id i)
    with assms show ?thesis by (simp add: members_get_members_id)
  qed
  thus ?thesis using assms by (simp add: members_projects_router)
qed

text \<open>
  C5. The schema being the spec's (an email is required) and the driver the default one,
  in a store whose members have all passed the schema, \<open>PUT /members/:id\<close> with the
  body \<open>{status: "inactive"}\<close> on an existing member answers 200 with a success body
  and stores the member with the status \<open>inactive\<close> and with its name, its email,
  its role and every other field as they were. (The handler does look the undefined
  email of the body up; no member matches it, since every member has an email.)
\<close>

theorem update_status_only:
  assumes "list_all User_schema (members d)"
    "find (\<lambda>m. mid m = i) (members d) = Some m"
  shows "code (fst (put_members_id default_config (Some ''admin'') i status_inactive d)) = 200 \<and>
         is_success_body
           (body (fst (put_members_id default_config (Some ''admin'') i status_inactive d))) \<and>
         (\<exists>new.
            find (\<lambda>m. mid m = i)
              (members (snd (put_members_id default_config (Some ''admin'') i
                               status_inactive d))) = Some new \<and>
            new = m\<lparr>status := Some ''inactive''\<rparr> \<and>
            status new = Some ''inactive'' \<and>
            name new = name m \<and> email new = email m \<and> role new = role m)"
proof -
  let ?r = "put_members_id default_config (Some ''admin'') i status_inactive d"
  have m_in: "m \<in> set (members d)" using assms(2) by (auto simp: find_Some_iff)
  hence "User_schema m" using assms(1) by (simp add: list_all_iff)
  hence ok: "validate default_config (m\<lparr>status := Some ''inactive''\<rparr>)"
    by (simp add: default_config_def User_schema_def)
  have "email x \<noteq> None" if "x \<in> set (members d)" for x
  proof -
    have "User_schema x" using assms(1) that by (simp add: list_all_iff)
    thus ?thesis by (cases "email x") (simp_all add: User_schema_def truthy_def)
  qed
  hence "\<forall>x\<in>set (members d). email x \<noteq> None" by blast
  hence nobody: "find (email_matches default_config None) (members d) = None"
    by (simp add: find_None_iff email_matches_def default_config_def)
  note U = update_status_only_when_no_match[OF assms(2) disjI2[OF nobody] ok]
  have c: "code (fst ?r) = 200" using U by (rule conjunct1)
  have "wrapped (fst (team_router default_config (Some ''admin'') 0
                   (PUT_members_id i status_inactive) d))"
    by (rule wrapped_team_router)
  hence s: "is_success_body (body (fst ?r))" using c by (simp add: wrapped_def)
  have f: "find (\<lambda>m. mid m = i) (members (snd ?r)) = Some (m\<lparr>status := Some ''inactive''\<rparr>)"
    using U by (rule conjunct2)
  show ?thesis using c s f by simp
qed

text \<open>
  Alice is created in an empty store, under the schema of the spec, and then set
  inactive.
\<close>

theorem update_status_only_witness:
  "list_all User_schema
     (members (snd (post_members default_config (Some ''admin'') alice_fields 10 empty_db))) \<and>
   find (\<lambda>m. mid m = 0)
     (members (snd (post_members default_config (Some ''admin'') alice_fields 10 empty_db))) =
     Some (new_User alice_fields 0 10) \<and>
   code (fst (put_members_id default_config (Some ''admin'') 0 status_inactive
     (snd (post_members default_config (Some ''admin'') alice_fields 10 empty_db)))) = 200 \<and>
   (\<exists>new.
      find (\<lambda>m. mid m = 0)
        (members (snd (put_members_id default_config (Some ''admin'') 0 status_inactive
           (snd (post_members default_config (Some ''admin'') alice_fields 10 empty_db))))) =
        Some new \<and>
      status new = Some ''inactive'' \<and> name new = Some ''Alice'' \<and>
      email new = Some ''alice@example.org'' \<and> role new = Some ''contributor'')"
proof -
  let ?d = "snd (post_members default_config (Some ''admin'') alice_fields 10 empty_db)"
  have ms: "members ?d = [new_User alice_fields 0 10]"
    by (simp add: post_members_def store_defs default_config_def User_schema_def
        alice_fields_def empty_db_def new_User_def email_matches_def js_or_def js_or_arr_def
        truthy_def Let_def)
  have h1: "list_all User_schema (members ?d)"
    unfolding ms
    by (simp add: User_schema_def new_User_def alice_fields_def js_or_def truthy_def)
  have h2: "find (\<lambda>m. mid m = 0) (members ?d) = Some (new_User alice_fields 0 10)"
    unfolding ms by (simp add: new_User_def)
  note T = update_status_only[OF h1 h2]
  from T obtain new where n:
    "find (\<lambda>m. mid m = 0)
       (members (snd (put_members_id default_config (Some ''admin'') 0 status_inactive ?d))) =
       Some new"
    "status new = Some ''inactive''"
    "name new = name (new_User alice_fields 0 10)"
    "email new = email (new_User alice_fields 0 10)"
    "role new = role (new_User alice_fields 0 10)"
    by blast
  have v: "status new = Some ''inactive'' \<and> name new = Some ''Alice'' \<and>
      email new = Some ''alice@example.org'' \<and> role new = Some ''contributor''"
    using n(2-5) by (simp add: new_User_def alice_fields_def js_or_def truthy_def)
  have e: "\<exists>new.
      find (\<lambda>m. mid m = 0)
        (members (snd (put_members_id default_config (Some ''admin'') 0 status_inactive ?d))) =
        Some new \<and>
      status new = Some ''inactive'' \<and> name new = Some ''Alice'' \<and>
      email new = Some ''alice@example.org'' \<and> role new = Some ''contributor''"
    using n(1) v by blast
  show ?thesis by (intro conjI h1 h2 conjunct1[OF T] e)
qed

end
